theory Spec2Isabelle
  imports Main
begin

section \<open>Python values, dictionaries and exceptions\<close>

text \<open>
  The datastore module (\<^verbatim>\<open>datastore/datastore.py\<close>) moves untyped Python values between
  the configuration, the \<^verbatim>\<open>DataStore\<close> object and the \<^verbatim>\<open>elastic_search\<close> package.
  They are kept untyped here.  A dictionary with string keys is an association list read
  through \<open>map_of\<close>.
\<close>

datatype pyval =
    PyNone
  | PyBool bool
  | PyInt int
  | PyStr string
  | PyList "pyval list"
  | PyDict "(string \<times> pyval) list"
  | PyOrderedDict "(string \<times> pyval) list"

type_synonym dict = "(string \<times> pyval) list"

text \<open>
  The exceptions of \<^verbatim>\<open>datastore/exceptions.py\<close> that the module raises itself, the
  built-in exceptions the interpreter raises on the module's own expressions, and
  \<open>OtherException\<close> for anything else a function of the \<^verbatim>\<open>elastic_search\<close> package may
  raise.  Exception messages are not modelled.
\<close>

datatype error =
    DataStoreSettingsImproperlyConfiguredException
  | EngineNotImplementedException
  | EngineConnectionException
  | NonESEngineTransferException
  | IndexNotFoundException
  | KeyError
  | TypeError
  | AttributeError
  | OtherException string

text \<open>\<^verbatim>\<open>d.get(k)\<close>, \<^verbatim>\<open>d.get(k, default)\<close> and \<^verbatim>\<open>k in d\<close> on a dictionary.\<close>

definition dict_get :: "dict \<Rightarrow> string \<Rightarrow> pyval" where
  "dict_get d k = (case map_of d k of None \<Rightarrow> PyNone | Some v \<Rightarrow> v)"

definition dict_get_default :: "dict \<Rightarrow> string \<Rightarrow> pyval \<Rightarrow> pyval" where
  "dict_get_default d k dflt = (case map_of d k of None \<Rightarrow> dflt | Some v \<Rightarrow> v)"

definition dict_in :: "string \<Rightarrow> dict \<Rightarrow> bool" where
  "dict_in k d = (map_of d k \<noteq> None)"

text \<open>
  \<^verbatim>\<open>d.get(key)\<close> where the key is itself a Python value: a string is looked up, an
  unhashable key raises \<^verbatim>\<open>TypeError\<close>, and any other hashable key is not a key of a
  dictionary whose keys are strings.
\<close>

fun dict_get_key :: "dict \<Rightarrow> pyval \<Rightarrow> error + pyval" where
  "dict_get_key d (PyStr k) = Inr (dict_get d k)"
| "dict_get_key d (PyList xs) = Inl TypeError"
| "dict_get_key d (PyDict kvs) = Inl TypeError"
| "dict_get_key d (PyOrderedDict kvs) = Inl TypeError"
| "dict_get_key d PyNone = Inr PyNone"
| "dict_get_key d (PyBool b) = Inr PyNone"
| "dict_get_key d (PyInt i) = Inr PyNone"

text \<open>
  \<^verbatim>\<open>v.get(k)\<close> on an arbitrary value: only dictionaries have the method, on anything
  else the attribute lookup raises \<^verbatim>\<open>AttributeError\<close>.
\<close>

fun as_dict :: "pyval \<Rightarrow> dict option" where
  "as_dict (PyDict kvs) = Some kvs"
| "as_dict (PyOrderedDict kvs) = Some kvs"
| "as_dict PyNone = None"
| "as_dict (PyBool b) = None"
| "as_dict (PyInt i) = None"
| "as_dict (PyStr s) = None"
| "as_dict (PyList xs) = None"

definition py_get :: "pyval \<Rightarrow> string \<Rightarrow> error + pyval" where
  "py_get v k = (case as_dict v of None \<Rightarrow> Inl AttributeError | Some d \<Rightarrow> Inr (dict_get d k))"

section \<open>The environment of the module\<close>

text \<open>
  A call of a function of the \<^verbatim>\<open>elastic_search\<close> package: its dotted name, its
  positional arguments and its keyword arguments.  The package is not part of the
  sources at hand, so it is a parameter: a function from the call and the state of the
  backend to the value returned or the exception raised, and the new state of the
  backend.  The world also keeps the log of the calls made with their outcomes.
\<close>

datatype call = Call string "pyval list" dict

type_synonym 'w backend = "call \<Rightarrow> 'w \<Rightarrow> (error + pyval) \<times> 'w"

record 'w world =
  calls :: "(call \<times> (error + pyval)) list"
  es :: 'w

text \<open>
  What the module imports: the constants of \<^verbatim>\<open>datastore/constants.py\<close> (their values
  are not in the sources at hand, so they are parameters), the configuration dictionary
  \<^verbatim>\<open>CHATBOT_NER_DATASTORE\<close> and the logger of \<^verbatim>\<open>chatbot_ner.config\<close>, and the
  \<^verbatim>\<open>elastic_search\<close> package.
\<close>

record 'w env =
  ELASTICSEARCH :: string
  ENGINE :: string
  ELASTICSEARCH_INDEX_NAME :: string
  ELASTICSEARCH_DOC_TYPE :: string
  ELASTICSEARCH_CRF_DATA_INDEX_NAME :: string
  ELASTICSEARCH_CRF_DATA_DOC_TYPE :: string
  DEFAULT_ENTITY_DATA_DIRECTORY :: pyval
  CHATBOT_NER_DATASTORE :: dict
  ner_logger :: pyval
  elastic_search :: "'w backend"

section \<open>The DataStore object\<close>

text \<open>
  The four attributes of a \<^verbatim>\<open>DataStore\<close> instance.  \<^verbatim>\<open>_connection_settings\<close> is a
  dictionary in every instance: the constructor fails when the configured value is not
  one (see \<open>DataStore_init\<close>).
\<close>

record datastore =
  ds_engine :: pyval
  ds_connection_settings :: dict
  ds_store_name :: pyval
  ds_client_or_connection :: pyval

text \<open>
  A method runs on the object and the world and returns a value or raises; the
  attributes assigned and the calls made before an exception stay.
\<close>

type_synonym ('a, 'w) action = "datastore \<Rightarrow> 'w world \<Rightarrow> (error + 'a) \<times> datastore \<times> 'w world"

definition returnE :: "'a \<Rightarrow> ('a, 'w) action" where
  "returnE a d w = (Inr a, d, w)"

definition raiseE :: "error \<Rightarrow> ('a, 'w) action" where
  "raiseE e d w = (Inl e, d, w)"

definition bindE :: "('a, 'w) action \<Rightarrow> ('a \<Rightarrow> ('b, 'w) action) \<Rightarrow> ('b, 'w) action" where
  "bindE m f d w =
     (case m d w of
        (Inl e, d', w') \<Rightarrow> (Inl e, d', w')
      | (Inr a, d', w') \<Rightarrow> f a d' w')"

text \<open>Calling the backend: the outcome is logged and the backend state replaced.\<close>

definition invoke :: "'w env \<Rightarrow> call \<Rightarrow> (pyval, 'w) action" where
  "invoke E c d w =
     (case elastic_search E c (es w) of
        (r, s) \<Rightarrow> (r, d, \<lparr>calls = calls w @ [(c, r)], es = s\<rparr>))"

text \<open>
  \<^verbatim>\<open>f(k1=v1, ..., **kwargs)\<close>: a keyword given both explicitly and in \<^verbatim>\<open>kwargs\<close> makes
  the interpreter raise \<^verbatim>\<open>TypeError\<close> before \<^verbatim>\<open>f\<close> runs.
\<close>

definition kw_clash :: "dict \<Rightarrow> dict \<Rightarrow> bool" where
  "kw_clash explicit kwargs = (set (map fst kwargs) \<inter> set (map fst explicit) \<noteq> {})"

definition call_kw :: "'w env \<Rightarrow> string \<Rightarrow> dict \<Rightarrow> dict \<Rightarrow> (pyval, 'w) action" where
  "call_kw E f explicit kwargs d w =
     (if kw_clash explicit kwargs
      then (Inl TypeError, d, w)
      else invoke E (Call f [] (explicit @ kwargs)) d w)"

text \<open>\<^verbatim>\<open>self._connection_settings[key]\<close>.\<close>

definition settings_item :: "string \<Rightarrow> (pyval, 'w) action" where
  "settings_item key d w =
     (case map_of (ds_connection_settings d) key of
        None \<Rightarrow> (Inl KeyError, d, w)
      | Some v \<Rightarrow> (Inr v, d, w))"

text \<open>\<^verbatim>\<open>self._connection_settings.get('request_timeout', 20)\<close>.\<close>

definition request_timeout_of :: "datastore \<Rightarrow> pyval" where
  "request_timeout_of d = dict_get_default (ds_connection_settings d) ''request_timeout'' (PyInt 20)"

subsection \<open>Connecting\<close>

text \<open>\<^verbatim>\<open>DataStore._connect\<close>.\<close>

definition ds_connect :: "'w env \<Rightarrow> (pyval, 'w) action" where
  "ds_connect E d w =
     (if ds_engine d = PyStr (ELASTICSEARCH E) then
        (let d1 = d\<lparr>ds_store_name :=
                     dict_get_default (ds_connection_settings d) (ELASTICSEARCH_INDEX_NAME E) (PyStr ''_all'')\<rparr>
         in case invoke E (Call ''elastic_search.connect.connect'' [] (ds_connection_settings d1)) d1 w of
              (Inl e, d2, w2) \<Rightarrow> (Inl e, d2, w2)
            | (Inr c, d2, w2) \<Rightarrow>
                (let d3 = d2\<lparr>ds_client_or_connection := c\<rparr>
                 in if c = PyNone then (Inl EngineConnectionException, d3, w2)
                    else (Inr PyNone, d3, w2)))
      else (Inl EngineNotImplementedException, d\<lparr>ds_client_or_connection := PyNone\<rparr>, w))"

text \<open>
  \<^verbatim>\<open>DataStore.__init__\<close>.  No object exists when the constructor raises.  (The
  \<^verbatim>\<open>Singleton\<close> metaclass, which hands out one instance per process, is not
  modelled.)  When the value configured for the engine is not a dictionary, \<^verbatim>\<open>_connect\<close>
  raises on its first statement: \<^verbatim>\<open>EngineNotImplementedException\<close> for an engine other
  than the search engine, \<^verbatim>\<open>AttributeError\<close> on \<^verbatim>\<open>.get\<close> otherwise.
\<close>

definition DataStore_init :: "'w env \<Rightarrow> 'w world \<Rightarrow> (error + datastore) \<times> 'w world" where
  "DataStore_init E w =
     (let engine = dict_get (CHATBOT_NER_DATASTORE E) (ENGINE E) in
      if engine = PyNone then (Inl DataStoreSettingsImproperlyConfiguredException, w)
      else case dict_get_key (CHATBOT_NER_DATASTORE E) engine of
             Inl e \<Rightarrow> (Inl e, w)
           | Inr connection_settings \<Rightarrow>
               if connection_settings = PyNone
               then (Inl DataStoreSettingsImproperlyConfiguredException, w)
               else (case as_dict connection_settings of
                       None \<Rightarrow>
                         if engine = PyStr (ELASTICSEARCH E) then (Inl AttributeError, w)
                         else (Inl EngineNotImplementedException, w)
                     | Some s \<Rightarrow>
                         (case ds_connect E
                                 \<lparr>ds_engine = engine, ds_connection_settings = s,
                                  ds_store_name = PyNone, ds_client_or_connection = PyNone\<rparr> w of
                            (Inl e, d, w') \<Rightarrow> (Inl e, w')
                          | (Inr u, d, w') \<Rightarrow> (Inr d, w'))))"

text \<open>
  The guard every method but \<^verbatim>\<open>transfer_entities_elastic_search\<close> starts with:
  \<^verbatim>\<open>if self._client_or_connection is None: self._connect()\<close>.
\<close>

definition connect_if_none :: "'w env \<Rightarrow> (pyval, 'w) action" where
  "connect_if_none E d w =
     (if ds_client_or_connection d = PyNone then ds_connect E d w else (Inr PyNone, d, w))"

subsection \<open>Checks of the document types\<close>

text \<open>\<^verbatim>\<open>DataStore._check_doc_type_for_elasticsearch\<close>.\<close>

definition check_doc_type_for_elasticsearch :: "'w env \<Rightarrow> (pyval, 'w) action" where
  "check_doc_type_for_elasticsearch E d w =
     (if \<not> dict_in (ELASTICSEARCH_DOC_TYPE E) (ds_connection_settings d)
      then (Inl DataStoreSettingsImproperlyConfiguredException, d, w)
      else (Inr PyNone, d, w))"

text \<open>\<^verbatim>\<open>DataStore._check_doc_type_for_crf_data_elasticsearch\<close>.\<close>

definition check_doc_type_for_crf_data_elasticsearch :: "'w env \<Rightarrow> (pyval, 'w) action" where
  "check_doc_type_for_crf_data_elasticsearch E d w =
     (if \<not> dict_in (ELASTICSEARCH_CRF_DATA_DOC_TYPE E) (ds_connection_settings d)
      then (Inl DataStoreSettingsImproperlyConfiguredException, d, w)
      else (Inr PyNone, d, w))"

section \<open>Index lifecycle\<close>

text \<open>
  Each method is written as the source has it: the connection guard, the test of the
  engine, the check of the document type, then the call into the \<^verbatim>\<open>elastic_search\<close>
  package with its keyword arguments in the source's order.  A method without a
  \<^verbatim>\<open>return\<close> statement on the path taken returns \<^verbatim>\<open>None\<close>.  Calls of the logger are
  not modelled.
\<close>

text \<open>\<^verbatim>\<open>DataStore.create\<close>.\<close>

definition create :: "'w env \<Rightarrow> dict \<Rightarrow> (pyval, 'w) action" where
  "create E kwargs =
     bindE (connect_if_none E) (\<lambda>_ d.
       (if ds_engine d = PyStr (ELASTICSEARCH E) then
          bindE (check_doc_type_for_elasticsearch E) (\<lambda>_.
          bindE (settings_item (ELASTICSEARCH_DOC_TYPE E)) (\<lambda>doc_type.
          bindE (call_kw E ''elastic_search.create.create_entity_index''
                   [(''connection'', ds_client_or_connection d),
                    (''index_name'', ds_store_name d),
                    (''doc_type'', doc_type),
                    (''logger'', ner_logger E),
                    (''ignore'', PyList [PyInt 400, PyInt 404])] kwargs) (\<lambda>_.
            (let crf_data_index =
                   dict_get (ds_connection_settings d) (ELASTICSEARCH_CRF_DATA_INDEX_NAME E)
             in if crf_data_index \<noteq> PyNone then
                  bindE (check_doc_type_for_crf_data_elasticsearch E) (\<lambda>_.
                  bindE (settings_item (ELASTICSEARCH_CRF_DATA_DOC_TYPE E)) (\<lambda>crf_doc_type.
                  bindE (call_kw E ''elastic_search.create.create_crf_index''
                           [(''connection'', ds_client_or_connection d),
                            (''index_name'', crf_data_index),
                            (''doc_type'', crf_doc_type),
                            (''logger'', ner_logger E),
                            (''ignore'', PyList [PyInt 400, PyInt 404])] kwargs) (\<lambda>_.
                    returnE PyNone)))
                else returnE PyNone))))
        else returnE PyNone) d)"

text \<open>\<^verbatim>\<open>DataStore.delete\<close>.\<close>

definition delete :: "'w env \<Rightarrow> dict \<Rightarrow> (pyval, 'w) action" where
  "delete E kwargs =
     bindE (connect_if_none E) (\<lambda>_ d.
       (if ds_engine d = PyStr (ELASTICSEARCH E) then
          bindE (call_kw E ''elastic_search.create.delete_index''
                   [(''connection'', ds_client_or_connection d),
                    (''index_name'', ds_store_name d),
                    (''logger'', ner_logger E),
                    (''ignore'', PyList [PyInt 400, PyInt 404])] kwargs) (\<lambda>_.
            returnE PyNone)
        else returnE PyNone) d)"

text \<open>\<^verbatim>\<open>DataStore.exists\<close>.\<close>

definition exists :: "'w env \<Rightarrow> (pyval, 'w) action" where
  "exists E =
     bindE (connect_if_none E) (\<lambda>_ d.
       (if ds_engine d = PyStr (ELASTICSEARCH E) then
          invoke E (Call ''elastic_search.create.exists'' []
                      [(''connection'', ds_client_or_connection d),
                       (''index_name'', ds_store_name d)])
        else returnE (PyBool False)) d)"

section \<open>Population\<close>

text \<open>\<^verbatim>\<open>DataStore.populate\<close>.\<close>

definition populate :: "'w env \<Rightarrow> pyval \<Rightarrow> pyval \<Rightarrow> dict \<Rightarrow> (pyval, 'w) action" where
  "populate E entity_data_directory_path csv_file_paths kwargs =
     bindE (connect_if_none E) (\<lambda>_ d.
       (if ds_engine d = PyStr (ELASTICSEARCH E) then
          bindE (check_doc_type_for_elasticsearch E) (\<lambda>_.
          bindE (settings_item (ELASTICSEARCH_DOC_TYPE E)) (\<lambda>doc_type.
          bindE (call_kw E ''elastic_search.populate.create_all_dictionary_data''
                   [(''connection'', ds_client_or_connection d),
                    (''index_name'', ds_store_name d),
                    (''doc_type'', doc_type),
                    (''entity_data_directory_path'', entity_data_directory_path),
                    (''csv_file_paths'', csv_file_paths),
                    (''logger'', ner_logger E)] kwargs) (\<lambda>_.
            returnE PyNone)))
        else returnE PyNone) d)"

text \<open>\<^verbatim>\<open>DataStore.repopulate\<close>.\<close>

definition repopulate :: "'w env \<Rightarrow> pyval \<Rightarrow> pyval \<Rightarrow> dict \<Rightarrow> (pyval, 'w) action" where
  "repopulate E entity_data_directory_path csv_file_paths kwargs =
     bindE (connect_if_none E) (\<lambda>_ d.
       (if ds_engine d = PyStr (ELASTICSEARCH E) then
          bindE (check_doc_type_for_elasticsearch E) (\<lambda>_.
          bindE (settings_item (ELASTICSEARCH_DOC_TYPE E)) (\<lambda>doc_type.
          bindE (call_kw E ''elastic_search.populate.recreate_all_dictionary_data''
                   [(''connection'', ds_client_or_connection d),
                    (''index_name'', ds_store_name d),
                    (''doc_type'', doc_type),
                    (''entity_data_directory_path'', entity_data_directory_path),
                    (''csv_file_paths'', csv_file_paths),
                    (''logger'', ner_logger E),
                    (''ignore'', PyList [PyInt 400, PyInt 404])] kwargs) (\<lambda>_.
            returnE PyNone)))
        else returnE PyNone) d)"

text \<open>\<^verbatim>\<open>DataStore.delete_entity\<close>.\<close>

definition delete_entity :: "'w env \<Rightarrow> pyval \<Rightarrow> dict \<Rightarrow> (pyval, 'w) action" where
  "delete_entity E entity_name kwargs =
     bindE (connect_if_none E) (\<lambda>_ d.
       (if ds_engine d = PyStr (ELASTICSEARCH E) then
          bindE (check_doc_type_for_elasticsearch E) (\<lambda>_.
          bindE (settings_item (ELASTICSEARCH_DOC_TYPE E)) (\<lambda>doc_type.
          bindE (call_kw E ''elastic_search.populate.delete_entity_by_name''
                   [(''connection'', ds_client_or_connection d),
                    (''index_name'', ds_store_name d),
                    (''doc_type'', doc_type),
                    (''entity_name'', entity_name),
                    (''logger'', ner_logger E),
                    (''ignore'', PyList [PyInt 400, PyInt 404])] kwargs) (\<lambda>_.
            returnE PyNone)))
        else returnE PyNone) d)"

section \<open>Queries\<close>

text \<open>\<^verbatim>\<open>DataStore.get_entity_dictionary\<close>.\<close>

definition get_entity_dictionary :: "'w env \<Rightarrow> pyval \<Rightarrow> dict \<Rightarrow> (pyval, 'w) action" where
  "get_entity_dictionary E entity_name kwargs =
     bindE (connect_if_none E) (\<lambda>_ d.
       (if ds_engine d = PyStr (ELASTICSEARCH E) then
          bindE (check_doc_type_for_elasticsearch E) (\<lambda>_.
          (let request_timeout = request_timeout_of d in
          bindE (settings_item (ELASTICSEARCH_DOC_TYPE E)) (\<lambda>doc_type.
          call_kw E ''elastic_search.query.dictionary_query''
            [(''connection'', ds_client_or_connection d),
             (''index_name'', ds_store_name d),
             (''doc_type'', doc_type),
             (''entity_name'', entity_name),
             (''request_timeout'', request_timeout)] kwargs)))
        else returnE (PyDict [])) d)"

text \<open>\<^verbatim>\<open>DataStore.get_similar_dictionary\<close>.\<close>

definition get_similar_dictionary ::
  "'w env \<Rightarrow> pyval \<Rightarrow> pyval \<Rightarrow> pyval \<Rightarrow> pyval \<Rightarrow> dict \<Rightarrow> (pyval, 'w) action" where
  "get_similar_dictionary E entity_name text fuzziness_threshold search_language_script kwargs =
     bindE (connect_if_none E) (\<lambda>_ d.
       (if ds_engine d = PyStr (ELASTICSEARCH E) then
          bindE (check_doc_type_for_elasticsearch E) (\<lambda>_.
          (let request_timeout = request_timeout_of d in
          bindE (settings_item (ELASTICSEARCH_DOC_TYPE E)) (\<lambda>doc_type.
          call_kw E ''elastic_search.query.full_text_query''
            [(''connection'', ds_client_or_connection d),
             (''index_name'', ds_store_name d),
             (''doc_type'', doc_type),
             (''entity_name'', entity_name),
             (''sentence'', text),
             (''fuzziness_threshold'', fuzziness_threshold),
             (''search_language_script'', search_language_script),
             (''request_timeout'', request_timeout)] kwargs)))
        else returnE (PyOrderedDict [])) d)"

text \<open>\<^verbatim>\<open>DataStore.get_entity_supported_languages\<close>.\<close>

definition get_entity_supported_languages :: "'w env \<Rightarrow> pyval \<Rightarrow> dict \<Rightarrow> (pyval, 'w) action" where
  "get_entity_supported_languages E entity_name kwargs =
     bindE (connect_if_none E) (\<lambda>_ d.
       (if ds_engine d = PyStr (ELASTICSEARCH E) then
          bindE (check_doc_type_for_elasticsearch E) (\<lambda>_.
          (let request_timeout = request_timeout_of d in
          bindE (settings_item (ELASTICSEARCH_DOC_TYPE E)) (\<lambda>doc_type.
          call_kw E ''elastic_search.query.get_entity_supported_languages''
            [(''connection'', ds_client_or_connection d),
             (''index_name'', ds_store_name d),
             (''doc_type'', doc_type),
             (''entity_name'', entity_name),
             (''request_timeout'', request_timeout)] kwargs)))
        else returnE PyNone) d)"

text \<open>\<^verbatim>\<open>DataStore.get_entity_unique_values\<close>.\<close>

definition get_entity_unique_values :: "'w env \<Rightarrow> pyval \<Rightarrow> dict \<Rightarrow> (pyval, 'w) action" where
  "get_entity_unique_values E entity_name kwargs =
     bindE (connect_if_none E) (\<lambda>_ d.
       (if ds_engine d = PyStr (ELASTICSEARCH E) then
          bindE (check_doc_type_for_elasticsearch E) (\<lambda>_.
          (let request_timeout = request_timeout_of d in
          bindE (settings_item (ELASTICSEARCH_DOC_TYPE E)) (\<lambda>doc_type.
          call_kw E ''elastic_search.query.get_entity_unique_values''
            [(''connection'', ds_client_or_connection d),
             (''index_name'', ds_store_name d),
             (''doc_type'', doc_type),
             (''entity_name'', entity_name),
             (''request_timeout'', request_timeout)] kwargs)))
        else returnE PyNone) d)"

text \<open>\<^verbatim>\<open>DataStore.get_entity_data\<close>.\<close>

definition get_entity_data :: "'w env \<Rightarrow> pyval \<Rightarrow> pyval \<Rightarrow> dict \<Rightarrow> (pyval, 'w) action" where
  "get_entity_data E entity_name values kwargs =
     bindE (connect_if_none E) (\<lambda>_ d.
       (if ds_engine d = PyStr (ELASTICSEARCH E) then
          bindE (check_doc_type_for_elasticsearch E) (\<lambda>_.
          (let request_timeout = request_timeout_of d in
          bindE (settings_item (ELASTICSEARCH_DOC_TYPE E)) (\<lambda>doc_type.
          call_kw E ''elastic_search.query.get_entity_data''
            [(''connection'', ds_client_or_connection d),
             (''index_name'', ds_store_name d),
             (''doc_type'', doc_type),
             (''entity_name'', entity_name),
             (''values'', values),
             (''request_timeout'', request_timeout)] kwargs)))
        else returnE PyNone) d)"

section \<open>Mutations\<close>

text \<open>
  \<^verbatim>\<open>elastic_search.connect.get_current_live_index(self._store_name)\<close>, the resolver of
  the live index: a call of the backend with one positional argument.
\<close>

definition get_current_live_index :: "'w env \<Rightarrow> pyval \<Rightarrow> (pyval, 'w) action" where
  "get_current_live_index E store_name =
     invoke E (Call ''elastic_search.connect.get_current_live_index'' [store_name] [])"

text \<open>
  \<^verbatim>\<open>DataStore.update_entity_data\<close>.  The resolver is called inside
  \<^verbatim>\<open>try ... except Exception\<close>: whatever it raises, the index is the store name.
\<close>

definition update_entity_data ::
  "'w env \<Rightarrow> pyval \<Rightarrow> pyval \<Rightarrow> pyval \<Rightarrow> dict \<Rightarrow> (pyval, 'w) action" where
  "update_entity_data E entity_name entity_data language_script kwargs =
     bindE (connect_if_none E) (\<lambda>_ d.
       (if ds_engine d = PyStr (ELASTICSEARCH E) then
          bindE (check_doc_type_for_elasticsearch E) (\<lambda>_.
          bindE (\<lambda>d' w'. case get_current_live_index E (ds_store_name d) d' w' of
                            (Inl e, d'', w'') \<Rightarrow> (Inr (ds_store_name d), d'', w'')
                          | (Inr live, d'', w'') \<Rightarrow> (Inr live, d'', w'')) (\<lambda>update_index.
          bindE (settings_item (ELASTICSEARCH_DOC_TYPE E)) (\<lambda>doc_type.
          bindE (call_kw E ''elastic_search.populate.entity_data_update''
                   [(''connection'', ds_client_or_connection d),
                    (''index_name'', update_index),
                    (''doc_type'', doc_type),
                    (''logger'', ner_logger E),
                    (''entity_data'', entity_data),
                    (''entity_name'', entity_name),
                    (''language_script'', language_script)] kwargs) (\<lambda>_.
            returnE PyNone))))
        else returnE PyNone) d)"

text \<open>\<^verbatim>\<open>DataStore.delete_entity_data_by_values\<close>.\<close>

definition delete_entity_data_by_values ::
  "'w env \<Rightarrow> pyval \<Rightarrow> pyval \<Rightarrow> dict \<Rightarrow> (pyval, 'w) action" where
  "delete_entity_data_by_values E entity_name values kwargs =
     bindE (connect_if_none E) (\<lambda>_ d.
       (if ds_engine d = PyStr (ELASTICSEARCH E) then
          bindE (check_doc_type_for_elasticsearch E) (\<lambda>_.
          bindE (get_current_live_index E (ds_store_name d)) (\<lambda>update_index.
          (let request_timeout = request_timeout_of d in
          bindE (settings_item (ELASTICSEARCH_DOC_TYPE E)) (\<lambda>doc_type.
          bindE (call_kw E ''elastic_search.populate.delete_entity_data_by_values''
                   [(''connection'', ds_client_or_connection d),
                    (''index_name'', update_index),
                    (''doc_type'', doc_type),
                    (''entity_name'', entity_name),
                    (''values'', values),
                    (''request_timeout'', request_timeout)] kwargs) (\<lambda>_.
            returnE PyNone)))))
        else returnE PyNone) d)"

text \<open>\<^verbatim>\<open>DataStore.add_entity_data\<close>.\<close>

definition add_entity_data :: "'w env \<Rightarrow> pyval \<Rightarrow> pyval \<Rightarrow> dict \<Rightarrow> (pyval, 'w) action" where
  "add_entity_data E entity_name value_variant_records kwargs =
     bindE (connect_if_none E) (\<lambda>_ d.
       (if ds_engine d = PyStr (ELASTICSEARCH E) then
          bindE (check_doc_type_for_elasticsearch E) (\<lambda>_.
          bindE (get_current_live_index E (ds_store_name d)) (\<lambda>update_index.
          bindE (settings_item (ELASTICSEARCH_DOC_TYPE E)) (\<lambda>doc_type.
          bindE (call_kw E ''elastic_search.populate.add_entity_data''
                   [(''connection'', ds_client_or_connection d),
                    (''index_name'', update_index),
                    (''doc_type'', doc_type),
                    (''entity_name'', entity_name),
                    (''value_variant_records'', value_variant_records)] kwargs) (\<lambda>_.
            returnE PyNone))))
        else returnE PyNone) d)"

section \<open>Transfer between clusters\<close>

text \<open>
  The last two statements of \<^verbatim>\<open>transfer_entities_elastic_search\<close>:
  \<^verbatim>\<open>ESTransfer(source=..., destination=...)\<close> builds the transfer object, whose method
  \<^verbatim>\<open>transfer_specific_entities\<close> is then called on it.
\<close>

definition transfer_specific_entities ::
  "'w env \<Rightarrow> pyval \<Rightarrow> pyval \<Rightarrow> pyval \<Rightarrow> (pyval, 'w) action" where
  "transfer_specific_entities E es_url destination entity_list =
     bindE (invoke E (Call ''elastic_search.transfer.ESTransfer'' []
                        [(''source'', es_url), (''destination'', destination)])) (\<lambda>es_object.
     bindE (invoke E (Call ''ESTransfer.transfer_specific_entities'' [es_object]
                        [(''list_of_entities'', entity_list)])) (\<lambda>_.
       returnE PyNone))"

text \<open>
  \<^verbatim>\<open>DataStore.transfer_entities_elastic_search\<close>.  It reads the module's configuration
  dictionary again, not the settings kept on the object, and has no connection guard.
\<close>

definition transfer_entities_elastic_search :: "'w env \<Rightarrow> pyval \<Rightarrow> (pyval, 'w) action" where
  "transfer_entities_elastic_search E entity_list d w =
     (if ds_engine d \<noteq> PyStr (ELASTICSEARCH E) then (Inl NonESEngineTransferException, d, w)
      else
        (case py_get (dict_get (CHATBOT_NER_DATASTORE E) (ELASTICSEARCH E)) ''connection_url'' of
           Inl e \<Rightarrow> (Inl e, d, w)
         | Inr url \<Rightarrow>
             bindE (if url = PyNone
                    then invoke E (Call ''elastic_search.connect.get_es_url'' [] [])
                    else returnE url) (\<lambda>es_url.
               if es_url = PyNone then raiseE DataStoreSettingsImproperlyConfiguredException
               else
                 (case py_get (dict_get (CHATBOT_NER_DATASTORE E) (ELASTICSEARCH E))
                         ''destination_url'' of
                    Inl e \<Rightarrow> raiseE e
                  | Inr destination \<Rightarrow>
                      transfer_specific_entities E es_url destination entity_list)) d w))"

section \<open>The CRF corpus\<close>

text \<open>\<^verbatim>\<open>DataStore.get_crf_data_for_entity_name\<close>.\<close>

definition get_crf_data_for_entity_name :: "'w env \<Rightarrow> pyval \<Rightarrow> dict \<Rightarrow> (pyval, 'w) action" where
  "get_crf_data_for_entity_name E entity_name kwargs =
     bindE (connect_if_none E) (\<lambda>_ d.
       (if ds_engine d = PyStr (ELASTICSEARCH E) then
          (let es_training_index =
                 dict_get (ds_connection_settings d) (ELASTICSEARCH_CRF_DATA_INDEX_NAME E)
           in if es_training_index = PyNone then raiseE IndexNotFoundException
              else
                bindE (check_doc_type_for_crf_data_elasticsearch E) (\<lambda>_.
                (let request_timeout = request_timeout_of d in
                bindE (settings_item (ELASTICSEARCH_CRF_DATA_DOC_TYPE E)) (\<lambda>doc_type.
                call_kw E ''elastic_search.query.get_crf_data_for_entity_name''
                  [(''connection'', ds_client_or_connection d),
                   (''index_name'', es_training_index),
                   (''doc_type'', doc_type),
                   (''entity_name'', entity_name),
                   (''request_timeout'', request_timeout)] kwargs))))
        else returnE (PyDict [])) d)"

text \<open>\<^verbatim>\<open>DataStore.update_entity_crf_data\<close>: the document type is checked first here.\<close>

definition update_entity_crf_data ::
  "'w env \<Rightarrow> pyval \<Rightarrow> pyval \<Rightarrow> pyval \<Rightarrow> pyval \<Rightarrow> dict \<Rightarrow> (pyval, 'w) action" where
  "update_entity_crf_data E entity_name entity_list language_script sentence_list kwargs =
     bindE (connect_if_none E) (\<lambda>_ d.
       (if ds_engine d = PyStr (ELASTICSEARCH E) then
          bindE (check_doc_type_for_crf_data_elasticsearch E) (\<lambda>_.
          (let es_training_index =
                 dict_get (ds_connection_settings d) (ELASTICSEARCH_CRF_DATA_INDEX_NAME E)
           in if es_training_index = PyNone then raiseE IndexNotFoundException
              else
                bindE (settings_item (ELASTICSEARCH_CRF_DATA_DOC_TYPE E)) (\<lambda>doc_type.
                bindE (call_kw E ''elastic_search.populate.update_entity_crf_data_populate''
                         [(''connection'', ds_client_or_connection d),
                          (''index_name'', es_training_index),
                          (''doc_type'', doc_type),
                          (''logger'', ner_logger E),
                          (''entity_list'', entity_list),
                          (''sentence_list'', sentence_list),
                          (''entity_name'', entity_name),
                          (''language_script'', language_script)] kwargs) (\<lambda>_.
                  returnE PyNone))))
        else returnE PyNone) d)"

section \<open>Observing the calls of a method\<close>

text \<open>The entries a run from world \<open>w\<close> to world \<open>w'\<close> appended to the log.\<close>

definition issued :: "'w world \<Rightarrow> 'w world \<Rightarrow> (call \<times> (error + pyval)) list" where
  "issued w w' = drop (length (calls w)) (calls w')"

definition function_of :: "call \<Rightarrow> string" where
  "function_of c = (case c of Call f args kws \<Rightarrow> f)"

definition index_name_of :: "call \<Rightarrow> pyval option" where
  "index_name_of c = (case c of Call f args kws \<Rightarrow> map_of kws ''index_name'')"

definition connect_call :: "dict \<Rightarrow> call" where
  "connect_call settings = Call ''elastic_search.connect.connect'' [] settings"

definition resolver_call :: "pyval \<Rightarrow> call" where
  "resolver_call store_name = Call ''elastic_search.connect.get_current_live_index'' [store_name] []"

text \<open>What a caller observes of a run: the value or exception, and the world.\<close>

definition outcome :: "(error + 'a) \<times> datastore \<times> 'w world \<Rightarrow> (error + 'a) \<times> 'w world" where
  "outcome x = (fst x, snd (snd x))"

text \<open>The same object with the two CRF keys removed from its connection settings.\<close>

definition without_crf_settings :: "'w env \<Rightarrow> datastore \<Rightarrow> datastore" where
  "without_crf_settings E d =
     d\<lparr>ds_connection_settings :=
          filter (\<lambda>kv. fst kv \<noteq> ELASTICSEARCH_CRF_DATA_INDEX_NAME E
                      \<and> fst kv \<noteq> ELASTICSEARCH_CRF_DATA_DOC_TYPE E)
                 (ds_connection_settings d)\<rparr>"

section \<open>The index primitives of the backend\<close>

text \<open>
  Modelled from the spec: the functions \<^verbatim>\<open>create_entity_index\<close>, \<^verbatim>\<open>create_crf_index\<close>,
  \<^verbatim>\<open>delete_index\<close> and \<^verbatim>\<open>exists\<close> of \<^verbatim>\<open>elastic_search.create\<close> are missing from the
  sources at hand.  By the spec the backend keeps a set of physical indices; creating an
  index that is there is answered "already exists" (status 400) and deleting one that is
  not there "not found" (status 404), both of which are success when the caller lists the
  status under \<^verbatim>\<open>ignore\<close> and an exception otherwise; \<^verbatim>\<open>exists\<close> reports whether the
  index is present.  Connecting yields a handle; every other function returns
  \<^verbatim>\<open>None\<close> and leaves the indices alone.
\<close>

definition ignored :: "int \<Rightarrow> dict \<Rightarrow> bool" where
  "ignored status kws =
     (case map_of kws ''ignore'' of
        Some (PyList xs) \<Rightarrow> PyInt status \<in> set xs
      | _ \<Rightarrow> False)"

definition es_spec :: "pyval set backend" where
  "es_spec c S =
     (case c of Call f args kws \<Rightarrow>
        (let index = dict_get kws ''index_name'' in
         if f = ''elastic_search.connect.connect'' then (Inr (PyStr ''client''), S)
         else if f = ''elastic_search.create.create_entity_index''
                 \<or> f = ''elastic_search.create.create_crf_index'' then
           (if index \<in> S
            then (if ignored 400 kws then (Inr PyNone, S)
                  else (Inl (OtherException ''RequestError''), S))
            else (Inr PyNone, insert index S))
         else if f = ''elastic_search.create.delete_index'' then
           (if index \<in> S then (Inr PyNone, S - {index})
            else (if ignored 404 kws then (Inr PyNone, S)
                  else (Inl (OtherException ''NotFoundError''), S)))
         else if f = ''elastic_search.create.exists'' then (Inr (PyBool (index \<in> S)), S)
         else (Inr PyNone, S)))"

section \<open>Concrete configurations\<close>

text \<open>
  A deployment to run the methods on: values for the constants, a configuration
  dictionary and a backend.  \<open>stub_backend\<close> answers the resolver of the live index and
  the discovery of the cluster URL as given, connects, and returns \<^verbatim>\<open>None\<close> otherwise.
\<close>

definition deployment :: "dict \<Rightarrow> 'w backend \<Rightarrow> 'w env" where
  "deployment config backend =
     \<lparr>ELASTICSEARCH = ''elasticsearch'',
      ENGINE = ''engine'',
      ELASTICSEARCH_INDEX_NAME = ''name'',
      ELASTICSEARCH_DOC_TYPE = ''doc_type'',
      ELASTICSEARCH_CRF_DATA_INDEX_NAME = ''crf_index'',
      ELASTICSEARCH_CRF_DATA_DOC_TYPE = ''crf_doc_type'',
      DEFAULT_ENTITY_DATA_DIRECTORY = PyStr ''data/entity_data'',
      CHATBOT_NER_DATASTORE = config,
      ner_logger = PyStr ''ner_logger'',
      elastic_search = backend\<rparr>"

definition stub_backend :: "(error + pyval) \<Rightarrow> pyval \<Rightarrow> unit backend" where
  "stub_backend live es_url c u =
     (case c of Call f args kws \<Rightarrow>
        (if f = ''elastic_search.connect.connect'' then (Inr (PyStr ''client''), u)
         else if f = ''elastic_search.connect.get_current_live_index'' then (live, u)
         else if f = ''elastic_search.connect.get_es_url'' then (Inr es_url, u)
         else (Inr PyNone, u)))"

definition config_of :: "dict \<Rightarrow> dict" where
  "config_of settings = [(''engine'', PyStr ''elasticsearch''), (''elasticsearch'', PyDict settings)]"

definition entities_settings :: dict where
  "entities_settings = [(''name'', PyStr ''entities''), (''doc_type'', PyStr ''data'')]"

definition store_of :: "dict \<Rightarrow> datastore" where
  "store_of settings =
     \<lparr>ds_engine = PyStr ''elasticsearch'', ds_connection_settings = settings,
      ds_store_name = PyStr ''entities'', ds_client_or_connection = PyStr ''client''\<rparr>"

definition fresh :: "'w \<Rightarrow> 'w world" where
  "fresh s = \<lparr>calls = [], es = s\<rparr>"

section \<open>Running the model\<close>

lemmas fixture_defs = deployment_def stub_backend_def config_of_def entities_settings_def
  store_of_def fresh_def

lemmas run_defs = bindE_def returnE_def raiseE_def invoke_def call_kw_def kw_clash_def
  settings_item_def request_timeout_of_def connect_if_none_def
  check_doc_type_for_elasticsearch_def check_doc_type_for_crf_data_elasticsearch_def
  ds_connect_def get_current_live_index_def dict_get_def dict_get_default_def dict_in_def
  py_get_def connect_call_def resolver_call_def

lemma bindE_elim:
  assumes "bindE m f d w = (r, d', w')"
  obtains (raised) e where "m d w = (Inl e, d', w')" "r = Inl e"
        | (returned) a d1 w1 where "m d w = (Inr a, d1, w1)" "f a d1 w1 = (r, d', w')"
  using assms by (auto simp: bindE_def split: prod.splits sum.splits)

lemma invoke_log:
  "invoke E c d w = (r, d', w') \<Longrightarrow> d' = d \<and> calls w' = calls w @ [(c, r)]"
  by (auto simp: invoke_def split: prod.splits)

lemma call_kw_log:
  "call_kw E f ex kw d w = (r, d', w') \<Longrightarrow>
     d' = d \<and> ((r = Inl TypeError \<and> w' = w \<and> kw_clash ex kw)
            \<or> (\<not> kw_clash ex kw \<and> calls w' = calls w @ [(Call f [] (ex @ kw), r)]))"
  by (auto simp: call_kw_def invoke_def split: if_splits prod.splits)

lemma check_doc_type_log:
  "check_doc_type_for_elasticsearch E d w = (r, d', w') \<Longrightarrow> d' = d \<and> w' = w"
  by (auto simp: check_doc_type_for_elasticsearch_def split: if_splits)

lemma settings_item_log:
  "settings_item k d w = (r, d', w') \<Longrightarrow> d' = d \<and> w' = w"
  by (auto simp: settings_item_def split: option.splits)

lemma issued_append: "calls w' = calls w @ ys \<Longrightarrow> issued w w' = ys"
  by (simp add: issued_def)

subsection \<open>The connection\<close>

lemma ds_connect_Inr:
  "ds_connect E d w = (Inr r, d', w') \<Longrightarrow>
     r = PyNone \<and> ds_client_or_connection d' \<noteq> PyNone
     \<and> ds_engine d' = PyStr (ELASTICSEARCH E) \<and> ds_engine d' = ds_engine d
     \<and> ds_connection_settings d' = ds_connection_settings d
     \<and> ds_store_name d' =
         dict_get_default (ds_connection_settings d) (ELASTICSEARCH_INDEX_NAME E) (PyStr ''_all'')
     \<and> calls w' = calls w @ [(connect_call (ds_connection_settings d),
                               Inr (ds_client_or_connection d'))]"
  by (auto simp: ds_connect_def invoke_def connect_call_def Let_def
           split: if_splits prod.splits sum.splits)

lemma ds_connect_Inl:
  "ds_connect E d w = (Inl e, d', w') \<Longrightarrow>
     ds_connection_settings d' = ds_connection_settings d \<and> ds_engine d' = ds_engine d
     \<and> (calls w' = calls w
         \<or> (\<exists>out. calls w' = calls w @ [(connect_call (ds_connection_settings d), out)]))"
  by (auto simp: ds_connect_def invoke_def connect_call_def Let_def
           split: if_splits prod.splits sum.splits)

lemma guard_connected:
  "ds_client_or_connection d \<noteq> PyNone \<Longrightarrow> bindE (connect_if_none E) body d w = body PyNone d w"
  by (simp add: bindE_def connect_if_none_def)

lemma guard_reconnect:
  assumes "ds_client_or_connection d = PyNone"
  shows "bindE (connect_if_none E) body d w =
         bindE (ds_connect E) (\<lambda>_. bindE (connect_if_none E) body) d w"
proof -
  obtain r d' w' where c: "ds_connect E d w = (r, d', w')"
    by (cases "ds_connect E d w") auto
  show ?thesis
  proof (cases r)
    case (Inl e)
    with c assms show ?thesis by (simp add: bindE_def connect_if_none_def)
  next
    case (Inr a)
    with c have "ds_client_or_connection d' \<noteq> PyNone \<and> a = PyNone"
      using ds_connect_Inr by blast
    with c Inr assms show ?thesis by (simp add: bindE_def connect_if_none_def)
  qed
qed

subsection \<open>Construction\<close>

lemma DataStore_init_Inr:
  assumes "DataStore_init E w = (Inr d, w')"
  shows "\<exists>d0. ds_client_or_connection d0 = PyNone \<and> ds_connect E d0 w = (Inr PyNone, d, w')"
proof -
  from assms have "\<exists>g s r. ds_connect E \<lparr>ds_engine = g, ds_connection_settings = s,
                       ds_store_name = PyNone, ds_client_or_connection = PyNone\<rparr> w
                     = (Inr r, d, w')"
    by (auto simp: DataStore_init_def Let_def
             split: if_splits sum.splits option.splits prod.splits)
  then obtain d0 r where "ds_client_or_connection d0 = PyNone"
    and "ds_connect E d0 w = (Inr r, d, w')"
    by (metis datastore.select_convs(4))
  moreover from this have "r = PyNone" using ds_connect_Inr by blast
  ultimately show ?thesis by blast
qed

lemma init_entities:
  "DataStore_init (deployment (config_of entities_settings)
                     (stub_backend (Inr (PyStr ''entities_v2'')) PyNone)) (fresh ())
   = (Inr (store_of entities_settings),
      \<lparr>calls = [(connect_call entities_settings, Inr (PyStr ''client''))], es = ()\<rparr>)"
  by (simp add: DataStore_init_def run_defs fixture_defs)

text \<open>
  C5, as the claim has it: constructing the datastore opens no connection and leaves the
  handle to the first operation.  The constructor of the source calls \<^verbatim>\<open>_connect\<close>:
  on the deployment of the spec's scenario (store \<^verbatim>\<open>entities\<close>, document type
  \<^verbatim>\<open>data\<close>) the object it returns already holds the handle, and the log of the backend
  holds the call that opened it.
\<close>

theorem DataStore_init_lazy_counterexample:
  "DataStore_init (deployment (config_of entities_settings)
                     (stub_backend (Inr (PyStr ''entities_v2'')) PyNone)) (fresh ())
   = (Inr \<lparr>ds_engine = PyStr ''elasticsearch'', ds_connection_settings = entities_settings,
           ds_store_name = PyStr ''entities'', ds_client_or_connection = PyStr ''client''\<rparr>,
      \<lparr>calls = [(Call ''elastic_search.connect.connect'' [] entities_settings,
                 Inr (PyStr ''client''))], es = ()\<rparr>)"
  using init_entities by (simp add: store_of_def connect_call_def)

text \<open>
  C5, amended: the handle is created by the constructor.  A construction that returns an
  object has made exactly one call of the backend, the one that connects, and the object
  holds the handle it returned; on that object the connection guard of the operations
  does nothing.  The guard creates a handle only on an object whose handle is
  \<^verbatim>\<open>None\<close>.
\<close>

theorem DataStore_init_connects_eagerly:
  assumes "DataStore_init E w = (Inr d, w')"
  shows "ds_client_or_connection d \<noteq> PyNone
       \<and> issued w w' = [(connect_call (ds_connection_settings d),
                          Inr (ds_client_or_connection d))]
       \<and> connect_if_none E d w1 = (Inr PyNone, d, w1)
       \<and> connect_if_none E (d\<lparr>ds_client_or_connection := PyNone\<rparr>) w1
           = ds_connect E (d\<lparr>ds_client_or_connection := PyNone\<rparr>) w1"
proof -
  from DataStore_init_Inr[OF assms] obtain d0 where
    c: "ds_connect E d0 w = (Inr PyNone, d, w')" by blast
  from ds_connect_Inr[OF c] have h: "ds_client_or_connection d \<noteq> PyNone"
    and l: "calls w' = calls w @ [(connect_call (ds_connection_settings d0),
                                   Inr (ds_client_or_connection d))]"
    and s: "ds_connection_settings d = ds_connection_settings d0"
    by simp_all
  from l s have "issued w w' = [(connect_call (ds_connection_settings d),
                                 Inr (ds_client_or_connection d))]"
    by (simp add: issued_append)
  with h show ?thesis by (simp add: connect_if_none_def)
qed

theorem DataStore_init_connects_eagerly_witness:
  "DataStore_init (deployment (config_of entities_settings)
                     (stub_backend (Inr (PyStr ''entities_v2'')) PyNone)) (fresh ())
     = (Inr (store_of entities_settings),
        \<lparr>calls = [(connect_call entities_settings, Inr (PyStr ''client''))], es = ()\<rparr>)
   \<and> ds_client_or_connection (store_of entities_settings) = PyStr ''client''
   \<and> issued (fresh ()) \<lparr>calls = [(connect_call entities_settings, Inr (PyStr ''client''))], es = ()\<rparr>
       = [(connect_call entities_settings, Inr (PyStr ''client''))]"
  using DataStore_init_connects_eagerly[OF init_entities, of "fresh ()"] init_entities
  by (simp add: store_of_def)

text \<open>
  C6: the constructor raises \<^verbatim>\<open>DataStoreSettingsImproperlyConfiguredException\<close> when
  the configuration has no engine, and when it has no settings for the engine it names;
  when it has settings for an engine other than the search engine, the constructor
  raises \<^verbatim>\<open>EngineNotImplementedException\<close>.  In all three cases the world is returned as
  it was: nothing was logged, so no call of the backend was made.
\<close>

theorem DataStore_init_configuration_errors:
  "(dict_get (CHATBOT_NER_DATASTORE E) (ENGINE E) = PyNone \<longrightarrow>
      DataStore_init E w = (Inl DataStoreSettingsImproperlyConfiguredException, w))
 \<and> (dict_get (CHATBOT_NER_DATASTORE E) (ENGINE E) = PyStr e
      \<and> dict_get (CHATBOT_NER_DATASTORE E) e = PyNone \<longrightarrow>
      DataStore_init E w = (Inl DataStoreSettingsImproperlyConfiguredException, w))
 \<and> (dict_get (CHATBOT_NER_DATASTORE E) (ENGINE E) = PyStr e
      \<and> dict_get (CHATBOT_NER_DATASTORE E) e \<noteq> PyNone \<and> e \<noteq> ELASTICSEARCH E \<longrightarrow>
      DataStore_init E w = (Inl EngineNotImplementedException, w))"
  by (auto simp: DataStore_init_def Let_def ds_connect_def split: option.splits)

theorem DataStore_init_configuration_errors_witness:
  "DataStore_init (deployment [] (stub_backend (Inr PyNone) PyNone)) (fresh ())
     = (Inl DataStoreSettingsImproperlyConfiguredException, fresh ())
   \<and> DataStore_init (deployment [(''engine'', PyStr ''elasticsearch'')]
                       (stub_backend (Inr PyNone) PyNone)) (fresh ())
     = (Inl DataStoreSettingsImproperlyConfiguredException, fresh ())
   \<and> DataStore_init (deployment [(''engine'', PyStr ''mysql''), (''mysql'', PyDict [])]
                       (stub_backend (Inr PyNone) PyNone)) (fresh ())
     = (Inl EngineNotImplementedException, fresh ())"
  using
    DataStore_init_configuration_errors
      [of "deployment [] (stub_backend (Inr PyNone) PyNone)" "fresh ()" "''elasticsearch''"]
    DataStore_init_configuration_errors
      [of "deployment [(''engine'', PyStr ''elasticsearch'')] (stub_backend (Inr PyNone) PyNone)"
          "fresh ()" "''elasticsearch''"]
    DataStore_init_configuration_errors
      [of "deployment [(''engine'', PyStr ''mysql''), (''mysql'', PyDict [])]
             (stub_backend (Inr PyNone) PyNone)" "fresh ()" "''mysql''"]
  by (simp add: deployment_def dict_get_def)

subsection \<open>The connection guard\<close>

lemma transfer_specific_entities_object:
  "transfer_specific_entities E src dst ents d w = (r, d', w') \<Longrightarrow> d' = d"
  unfolding transfer_specific_entities_def
  by (elim bindE_elim; (drule invoke_log)+) (auto simp: returnE_def)

lemma transfer_object:
  assumes "transfer_entities_elastic_search E ents d w = (r, d', w')"
  shows "d' = d"
proof (cases "ds_engine d \<noteq> PyStr (ELASTICSEARCH E)")
  case True
  with assms show ?thesis by (simp add: transfer_entities_elastic_search_def)
next
  case False
  show ?thesis
  proof (cases "py_get (dict_get (CHATBOT_NER_DATASTORE E) (ELASTICSEARCH E)) ''connection_url''")
    case (Inl e)
    with assms False show ?thesis by (simp add: transfer_entities_elastic_search_def)
  next
    case (Inr url)
    with assms False show ?thesis
      unfolding transfer_entities_elastic_search_def
      apply simp
      apply (erule bindE_elim)
       apply (auto simp: returnE_def raiseE_def split: if_splits sum.splits
                   dest!: invoke_log transfer_specific_entities_object)
      done
  qed
qed

lemma transfer_keeps_object:
  "fst (snd (transfer_entities_elastic_search E entity_list d w)) = d"
  using transfer_object[of E entity_list d w] 
  by (cases "transfer_entities_elastic_search E entity_list d w") auto

text \<open>
  C4, as the claim has it: every public operation re-creates the handle when none exists,
  \<^verbatim>\<open>transfer_entities_elastic_search\<close> included.  The transfer has no connection guard:
  on an object without a handle it runs to its end, makes no call that connects, and
  leaves the object without a handle.
\<close>

theorem transfer_without_connection_counterexample:
  "transfer_entities_elastic_search
     (deployment (config_of ((''connection_url'', PyStr ''http://source:9200'') # entities_settings))
        (stub_backend (Inr (PyStr ''entities_v2'')) PyNone))
     (PyList [PyStr ''city''])
     \<lparr>ds_engine = PyStr ''elasticsearch'', ds_connection_settings = entities_settings,
      ds_store_name = PyStr ''entities'', ds_client_or_connection = PyNone\<rparr>
     (fresh ())
   = (Inr PyNone,
      \<lparr>ds_engine = PyStr ''elasticsearch'', ds_connection_settings = entities_settings,
       ds_store_name = PyStr ''entities'', ds_client_or_connection = PyNone\<rparr>,
      \<lparr>calls = [(Call ''elastic_search.transfer.ESTransfer'' []
                   [(''source'', PyStr ''http://source:9200''), (''destination'', PyNone)],
                 Inr PyNone),
                (Call ''ESTransfer.transfer_specific_entities'' [PyNone]
                   [(''list_of_entities'', PyList [PyStr ''city''])], Inr PyNone)],
       es = ()\<rparr>)"
  by (simp add: transfer_entities_elastic_search_def transfer_specific_entities_def
                run_defs fixture_defs)

text \<open>
  C4, amended: every public operation other than \<^verbatim>\<open>transfer_entities_elastic_search\<close>
  first guarantees connectivity.  Run on an object without a handle, the operation is
  \<^verbatim>\<open>_connect\<close> followed by the operation itself on the object \<^verbatim>\<open>_connect\<close> leaves: if
  \<^verbatim>\<open>_connect\<close> raises, nothing else happens; if it returns, the object holds a handle.
  The transfer never changes the object.
\<close>

theorem operations_reconnect_first:
  assumes "ds_client_or_connection d = PyNone"
  shows "create E kw d w = bindE (ds_connect E) (\<lambda>_. create E kw) d w
       \<and> populate E dir csv kw d w = bindE (ds_connect E) (\<lambda>_. populate E dir csv kw) d w
       \<and> delete E kw d w = bindE (ds_connect E) (\<lambda>_. delete E kw) d w
       \<and> get_entity_dictionary E n kw d w
           = bindE (ds_connect E) (\<lambda>_. get_entity_dictionary E n kw) d w
       \<and> get_similar_dictionary E n txt fz lang kw d w
           = bindE (ds_connect E) (\<lambda>_. get_similar_dictionary E n txt fz lang kw) d w
       \<and> delete_entity E n kw d w = bindE (ds_connect E) (\<lambda>_. delete_entity E n kw) d w
       \<and> repopulate E dir csv kw d w = bindE (ds_connect E) (\<lambda>_. repopulate E dir csv kw) d w
       \<and> exists E d w = bindE (ds_connect E) (\<lambda>_. exists E) d w
       \<and> update_entity_data E n dat lang kw d w
           = bindE (ds_connect E) (\<lambda>_. update_entity_data E n dat lang kw) d w
       \<and> get_entity_supported_languages E n kw d w
           = bindE (ds_connect E) (\<lambda>_. get_entity_supported_languages E n kw) d w
       \<and> get_entity_unique_values E n kw d w
           = bindE (ds_connect E) (\<lambda>_. get_entity_unique_values E n kw) d w
       \<and> delete_entity_data_by_values E n vs kw d w
           = bindE (ds_connect E) (\<lambda>_. delete_entity_data_by_values E n vs kw) d w
       \<and> add_entity_data E n recs kw d w
           = bindE (ds_connect E) (\<lambda>_. add_entity_data E n recs kw) d w
       \<and> get_entity_data E n vs kw d w
           = bindE (ds_connect E) (\<lambda>_. get_entity_data E n vs kw) d w
       \<and> get_crf_data_for_entity_name E n kw d w
           = bindE (ds_connect E) (\<lambda>_. get_crf_data_for_entity_name E n kw) d w
       \<and> update_entity_crf_data E n ents lang sents kw d w
           = bindE (ds_connect E) (\<lambda>_. update_entity_crf_data E n ents lang sents kw) d w
       \<and> (\<forall>r d' w'. ds_connect E d w = (Inr r, d', w') \<longrightarrow> ds_client_or_connection d' \<noteq> PyNone)
       \<and> fst (snd (transfer_entities_elastic_search E ents d w)) = d"
  using assms ds_connect_Inr[of E d w] transfer_keeps_object[of E ents d w]
  unfolding create_def populate_def delete_def get_entity_dictionary_def
    get_similar_dictionary_def delete_entity_def repopulate_def exists_def
    update_entity_data_def get_entity_supported_languages_def get_entity_unique_values_def
    delete_entity_data_by_values_def add_entity_data_def get_entity_data_def
    get_crf_data_for_entity_name_def update_entity_crf_data_def
  by (intro conjI) ((rule guard_reconnect, assumption)+, blast, assumption)

theorem operations_reconnect_first_witness:
  "ds_client_or_connection ((store_of entities_settings)\<lparr>ds_client_or_connection := PyNone\<rparr>)
     = PyNone
   \<and> bindE (ds_connect (deployment (config_of entities_settings)
                          (stub_backend (Inr (PyStr ''entities_v2'')) PyNone)))
        (\<lambda>_. get_entity_dictionary
                (deployment (config_of entities_settings)
                   (stub_backend (Inr (PyStr ''entities_v2'')) PyNone)) (PyStr ''city'') [])
        ((store_of entities_settings)\<lparr>ds_client_or_connection := PyNone\<rparr>) (fresh ())
     = (Inr PyNone, store_of entities_settings,
        \<lparr>calls = [(connect_call entities_settings, Inr (PyStr ''client'')),
                  (Call ''elastic_search.query.dictionary_query'' []
                     [(''connection'', PyStr ''client''), (''index_name'', PyStr ''entities''),
                      (''doc_type'', PyStr ''data''), (''entity_name'', PyStr ''city''),
                      (''request_timeout'', PyInt 20)], Inr PyNone)],
         es = ()\<rparr>)"
proof -
  let ?E = "deployment (config_of entities_settings)
              (stub_backend (Inr (PyStr ''entities_v2'')) PyNone) :: unit env"
  let ?d = "(store_of entities_settings)\<lparr>ds_client_or_connection := PyNone\<rparr>"
  have h: "ds_client_or_connection ?d = PyNone" by simp
  have e: "get_entity_dictionary ?E (PyStr ''city'') [] ?d (fresh ())
           = bindE (ds_connect ?E) (\<lambda>_. get_entity_dictionary ?E (PyStr ''city'') []) ?d (fresh ())"
    using operations_reconnect_first[OF h, of ?E] by blast
  have v: "get_entity_dictionary ?E (PyStr ''city'') [] ?d (fresh ())
           = (Inr PyNone, store_of entities_settings,
              \<lparr>calls = [(connect_call entities_settings, Inr (PyStr ''client'')),
                  (Call ''elastic_search.query.dictionary_query'' []
                     [(''connection'', PyStr ''client''), (''index_name'', PyStr ''entities''),
                      (''doc_type'', PyStr ''data''), (''entity_name'', PyStr ''city''),
                      (''request_timeout'', PyInt 20)], Inr PyNone)],
               es = ()\<rparr>)"
    by (simp add: get_entity_dictionary_def run_defs fixture_defs)
  from h e v show ?thesis by simp
qed

subsection \<open>Outside the branch of the search engine\<close>

lemma other_engine_without_handle:
  assumes "ds_engine d \<noteq> PyStr (ELASTICSEARCH E)" and "ds_client_or_connection d = PyNone"
  shows "bindE (connect_if_none E) body d w = (Inl EngineNotImplementedException, d, w)"
proof -
  from assms(2) have "d\<lparr>ds_client_or_connection := PyNone\<rparr> = d" by simp
  with assms show ?thesis
    by (simp add: bindE_def connect_if_none_def ds_connect_def)
qed

text \<open>
  C9: on an object whose engine is not the search engine (and that holds a handle, as
  every object the constructor returned does), \<^verbatim>\<open>get_entity_dictionary\<close> and
  \<^verbatim>\<open>get_crf_data_for_entity_name\<close> return an empty dictionary and
  \<^verbatim>\<open>get_similar_dictionary\<close> an empty ordered dictionary, while
  \<^verbatim>\<open>get_entity_supported_languages\<close>, \<^verbatim>\<open>get_entity_unique_values\<close> and
  \<^verbatim>\<open>get_entity_data\<close> return \<^verbatim>\<open>None\<close>; none of them calls the backend.
\<close>

theorem queries_outside_engine_branch:
  assumes "ds_engine d \<noteq> PyStr (ELASTICSEARCH E)" and "ds_client_or_connection d \<noteq> PyNone"
  shows "get_entity_dictionary E n kw d w = (Inr (PyDict []), d, w)
       \<and> get_similar_dictionary E n txt fz lang kw d w = (Inr (PyOrderedDict []), d, w)
       \<and> get_crf_data_for_entity_name E n kw d w = (Inr (PyDict []), d, w)
       \<and> get_entity_supported_languages E n kw d w = (Inr PyNone, d, w)
       \<and> get_entity_unique_values E n kw d w = (Inr PyNone, d, w)
       \<and> get_entity_data E n vs kw d w = (Inr PyNone, d, w)"
  using assms
  by (simp add: get_entity_dictionary_def get_similar_dictionary_def
                get_crf_data_for_entity_name_def get_entity_supported_languages_def
                get_entity_unique_values_def get_entity_data_def guard_connected returnE_def)

theorem queries_outside_engine_branch_witness:
  "ds_engine ((store_of entities_settings)\<lparr>ds_engine := PyStr ''mysql''\<rparr>)
     \<noteq> PyStr (ELASTICSEARCH (deployment (config_of entities_settings) (stub_backend (Inr PyNone) PyNone)))
   \<and> ds_client_or_connection ((store_of entities_settings)\<lparr>ds_engine := PyStr ''mysql''\<rparr>) \<noteq> PyNone
   \<and> fst (get_entity_dictionary (deployment (config_of entities_settings) (stub_backend (Inr PyNone) PyNone))
            (PyStr ''city'') [] ((store_of entities_settings)\<lparr>ds_engine := PyStr ''mysql''\<rparr>) (fresh ()))
       = Inr (PyDict [])
   \<and> fst (get_similar_dictionary (deployment (config_of entities_settings) (stub_backend (Inr PyNone) PyNone))
            (PyStr ''city'') (PyStr ''stgo'') (PyInt 0) PyNone []
            ((store_of entities_settings)\<lparr>ds_engine := PyStr ''mysql''\<rparr>) (fresh ()))
       = Inr (PyOrderedDict [])
   \<and> fst (get_crf_data_for_entity_name (deployment (config_of entities_settings) (stub_backend (Inr PyNone) PyNone))
            (PyStr ''city'') [] ((store_of entities_settings)\<lparr>ds_engine := PyStr ''mysql''\<rparr>) (fresh ()))
       = Inr (PyDict [])
   \<and> fst (get_entity_supported_languages (deployment (config_of entities_settings) (stub_backend (Inr PyNone) PyNone))
            (PyStr ''city'') [] ((store_of entities_settings)\<lparr>ds_engine := PyStr ''mysql''\<rparr>) (fresh ()))
       = Inr PyNone
   \<and> fst (get_entity_unique_values (deployment (config_of entities_settings) (stub_backend (Inr PyNone) PyNone))
            (PyStr ''city'') [] ((store_of entities_settings)\<lparr>ds_engine := PyStr ''mysql''\<rparr>) (fresh ()))
       = Inr PyNone
   \<and> fst (get_entity_data (deployment (config_of entities_settings) (stub_backend (Inr PyNone) PyNone))
            (PyStr ''city'') PyNone [] ((store_of entities_settings)\<lparr>ds_engine := PyStr ''mysql''\<rparr>) (fresh ()))
       = Inr PyNone"
proof -
  let ?E = "deployment (config_of entities_settings) (stub_backend (Inr PyNone) PyNone) :: unit env"
  let ?d = "(store_of entities_settings)\<lparr>ds_engine := PyStr ''mysql''\<rparr>"
  have a: "ds_engine ?d \<noteq> PyStr (ELASTICSEARCH ?E)" by (simp add: deployment_def)
  have b: "ds_client_or_connection ?d \<noteq> PyNone" by (simp add: store_of_def)
  from a b queries_outside_engine_branch[OF a b, of "PyStr ''city''" "[]" "fresh ()"
      "PyStr ''stgo''" "PyInt 0" PyNone PyNone]
  show ?thesis by simp
qed

subsection \<open>A missing document type\<close>

text \<open>
  C10: on a connected object of the search engine whose connection settings have no
  document type, \<^verbatim>\<open>create\<close>, \<^verbatim>\<open>populate\<close>, \<^verbatim>\<open>delete_entity\<close> and the five queries
  raise \<^verbatim>\<open>DataStoreSettingsImproperlyConfiguredException\<close> without calling the backend,
  whereas \<^verbatim>\<open>delete\<close> makes no such check: it calls \<^verbatim>\<open>delete_index\<close> on the store name
  and returns when that call returns.
\<close>

theorem delete_skips_doc_type_check:
  assumes "ds_engine d = PyStr (ELASTICSEARCH E)"
    and "ds_client_or_connection d \<noteq> PyNone"
    and "\<not> dict_in (ELASTICSEARCH_DOC_TYPE E) (ds_connection_settings d)"
  shows "create E kw d w = (Inl DataStoreSettingsImproperlyConfiguredException, d, w)
       \<and> populate E dir csv kw d w = (Inl DataStoreSettingsImproperlyConfiguredException, d, w)
       \<and> delete_entity E n kw d w = (Inl DataStoreSettingsImproperlyConfiguredException, d, w)
       \<and> get_entity_dictionary E n kw d w
           = (Inl DataStoreSettingsImproperlyConfiguredException, d, w)
       \<and> get_similar_dictionary E n txt fz lang kw d w
           = (Inl DataStoreSettingsImproperlyConfiguredException, d, w)
       \<and> get_entity_supported_languages E n kw d w
           = (Inl DataStoreSettingsImproperlyConfiguredException, d, w)
       \<and> get_entity_unique_values E n kw d w
           = (Inl DataStoreSettingsImproperlyConfiguredException, d, w)
       \<and> get_entity_data E n vs kw d w
           = (Inl DataStoreSettingsImproperlyConfiguredException, d, w)
       \<and> (\<not> kw_clash [(''connection'', ds_client_or_connection d),
                         (''index_name'', ds_store_name d),
                         (''logger'', ner_logger E),
                         (''ignore'', PyList [PyInt 400, PyInt 404])] kw
            \<and> elastic_search E
                 (Call ''elastic_search.create.delete_index'' []
                    ([(''connection'', ds_client_or_connection d),
                      (''index_name'', ds_store_name d),
                      (''logger'', ner_logger E),
                      (''ignore'', PyList [PyInt 400, PyInt 404])] @ kw)) (es w) = (Inr v, s)
            \<longrightarrow> delete E kw d w
                = (Inr PyNone, d,
                   \<lparr>calls = calls w @
                      [(Call ''elastic_search.create.delete_index'' []
                          ([(''connection'', ds_client_or_connection d),
                            (''index_name'', ds_store_name d),
                            (''logger'', ner_logger E),
                            (''ignore'', PyList [PyInt 400, PyInt 404])] @ kw), Inr v)],
                     es = s\<rparr>))"
  using assms
  by (simp add: create_def populate_def delete_entity_def get_entity_dictionary_def
                get_similar_dictionary_def get_entity_supported_languages_def
                get_entity_unique_values_def get_entity_data_def delete_def
                connect_if_none_def check_doc_type_for_elasticsearch_def bindE_def
                returnE_def call_kw_def invoke_def)

theorem delete_skips_doc_type_check_witness:
  "ds_engine (store_of [(''name'', PyStr ''entities'')])
     = PyStr (ELASTICSEARCH (deployment (config_of [(''name'', PyStr ''entities'')])
                               (stub_backend (Inr PyNone) PyNone)))
   \<and> ds_client_or_connection (store_of [(''name'', PyStr ''entities'')]) \<noteq> PyNone
   \<and> create (deployment (config_of [(''name'', PyStr ''entities'')])
               (stub_backend (Inr PyNone) PyNone)) []
        (store_of [(''name'', PyStr ''entities'')]) (fresh ())
       = (Inl DataStoreSettingsImproperlyConfiguredException,
          store_of [(''name'', PyStr ''entities'')], fresh ())
   \<and> get_entity_dictionary (deployment (config_of [(''name'', PyStr ''entities'')])
               (stub_backend (Inr PyNone) PyNone)) (PyStr ''city'') []
        (store_of [(''name'', PyStr ''entities'')]) (fresh ())
       = (Inl DataStoreSettingsImproperlyConfiguredException,
          store_of [(''name'', PyStr ''entities'')], fresh ())
   \<and> delete (deployment (config_of [(''name'', PyStr ''entities'')])
               (stub_backend (Inr PyNone) PyNone)) []
        (store_of [(''name'', PyStr ''entities'')]) (fresh ())
       = (Inr PyNone, store_of [(''name'', PyStr ''entities'')],
          \<lparr>calls = [(Call ''elastic_search.create.delete_index'' []
                       [(''connection'', PyStr ''client''), (''index_name'', PyStr ''entities''),
                        (''logger'', PyStr ''ner_logger''),
                        (''ignore'', PyList [PyInt 400, PyInt 404])], Inr PyNone)],
           es = ()\<rparr>)"
proof -
  let ?E = "deployment (config_of [(''name'', PyStr ''entities'')])
              (stub_backend (Inr PyNone) PyNone) :: unit env"
  let ?d = "store_of [(''name'', PyStr ''entities'')]"
  have a: "ds_engine ?d = PyStr (ELASTICSEARCH ?E)" by (simp add: store_of_def deployment_def)
  have b: "ds_client_or_connection ?d \<noteq> PyNone" by (simp add: store_of_def)
  have c: "\<not> dict_in (ELASTICSEARCH_DOC_TYPE ?E) (ds_connection_settings ?d)"
    by (simp add: store_of_def deployment_def dict_in_def)
  have k: "\<not> kw_clash [(''connection'', ds_client_or_connection ?d),
                        (''index_name'', ds_store_name ?d),
                        (''logger'', ner_logger ?E),
                        (''ignore'', PyList [PyInt 400, PyInt 404])] []"
    by (simp add: kw_clash_def)
  have r: "elastic_search ?E
             (Call ''elastic_search.create.delete_index'' []
                ([(''connection'', ds_client_or_connection ?d),
                  (''index_name'', ds_store_name ?d),
                  (''logger'', ner_logger ?E),
                  (''ignore'', PyList [PyInt 400, PyInt 404])] @ [])) (es (fresh ()))
           = (Inr PyNone, ())"
    by (simp add: fixture_defs)
  from delete_skips_doc_type_check[OF a b c, of "[]" "fresh ()" _ _ "PyStr ''city''" _ _ _ _ PyNone "()"]
    a b k r
  show ?thesis by (simp add: store_of_def deployment_def fresh_def)
qed


subsection \<open>The CRF settings\<close>

lemma map_of_without:
  "k \<noteq> a \<Longrightarrow> k \<noteq> b \<Longrightarrow>
   map_of (filter (\<lambda>kv. fst kv \<noteq> a \<and> fst kv \<noteq> b) xs) k = map_of xs k"
  by (induction xs) auto

lemma bindE_outcome_cong:
  assumes m: "outcome (m d w) = outcome (m' d' w)"
    and md: "\<And>r d1 w1. m d w = (r, d1, w1) \<Longrightarrow> d1 = d"
    and md': "\<And>r d1 w1. m' d' w = (r, d1, w1) \<Longrightarrow> d1 = d'"
    and f: "\<And>a w1. outcome (f a d w1) = outcome (f' a d' w1)"
  shows "outcome (bindE m f d w) = outcome (bindE m' f' d' w)"
proof -
  obtain r d1 w1 where a: "m d w = (r, d1, w1)" by (cases "m d w") auto
  obtain r' d1' w1' where b: "m' d' w = (r', d1', w1')" by (cases "m' d' w") auto
  from m a b have e: "r' = r" "w1' = w1" by (simp_all add: outcome_def)
  from md[OF a] md'[OF b] have o: "d1 = d" "d1' = d'" by simp_all
  show ?thesis
  proof (cases r)
    case (Inl x)
    with a b e show ?thesis by (simp add: bindE_def outcome_def)
  next
    case (Inr x)
    with a b e o f[of x w1] show ?thesis by (simp add: bindE_def)
  qed
qed

lemma without_crf_fields:
  "ds_engine (without_crf_settings E d) = ds_engine d"
  "ds_store_name (without_crf_settings E d) = ds_store_name d"
  "ds_client_or_connection (without_crf_settings E d) = ds_client_or_connection d"
  by (simp_all add: without_crf_settings_def)

lemma without_crf_lookup:
  assumes "k \<noteq> ELASTICSEARCH_CRF_DATA_INDEX_NAME E" and "k \<noteq> ELASTICSEARCH_CRF_DATA_DOC_TYPE E"
  shows "map_of (ds_connection_settings (without_crf_settings E d)) k
         = map_of (ds_connection_settings d) k"
  using assms by (simp add: without_crf_settings_def map_of_without)

lemma call_kw_outcome: "outcome (call_kw E f ex kw d' w) = outcome (call_kw E f ex kw d w)"
  by (simp add: call_kw_def invoke_def outcome_def split: prod.splits)

lemma invoke_outcome: "outcome (invoke E c d' w) = outcome (invoke E c d w)"
  by (simp add: invoke_def outcome_def split: prod.splits)

lemma returnE_outcome: "outcome (returnE a d' w) = outcome (returnE a d w)"
  by (simp add: returnE_def outcome_def)

lemma check_doc_type_outcome:
  assumes "ELASTICSEARCH_DOC_TYPE E \<noteq> ELASTICSEARCH_CRF_DATA_INDEX_NAME E"
    and "ELASTICSEARCH_DOC_TYPE E \<noteq> ELASTICSEARCH_CRF_DATA_DOC_TYPE E"
  shows "outcome (check_doc_type_for_elasticsearch E (without_crf_settings E d) w)
         = outcome (check_doc_type_for_elasticsearch E d w)"
  by (simp add: check_doc_type_for_elasticsearch_def dict_in_def outcome_def
                without_crf_lookup[OF assms])

lemma settings_item_outcome:
  assumes "ELASTICSEARCH_DOC_TYPE E \<noteq> ELASTICSEARCH_CRF_DATA_INDEX_NAME E"
    and "ELASTICSEARCH_DOC_TYPE E \<noteq> ELASTICSEARCH_CRF_DATA_DOC_TYPE E"
  shows "outcome (settings_item (ELASTICSEARCH_DOC_TYPE E) (without_crf_settings E d) w)
         = outcome (settings_item (ELASTICSEARCH_DOC_TYPE E) d w)"
  by (simp add: settings_item_def outcome_def without_crf_lookup[OF assms] split: option.splits)

lemma request_timeout_without_crf:
  assumes "''request_timeout'' \<noteq> ELASTICSEARCH_CRF_DATA_INDEX_NAME E"
    and "''request_timeout'' \<noteq> ELASTICSEARCH_CRF_DATA_DOC_TYPE E"
  shows "request_timeout_of (without_crf_settings E d) = request_timeout_of d"
  by (simp add: request_timeout_of_def dict_get_default_def without_crf_lookup[OF assms])

lemma resolver_log:
  "get_current_live_index E store d w = (r, d', w') \<Longrightarrow> d' = d"
  by (simp add: get_current_live_index_def invoke_def split: prod.splits)

lemma resolver_outcome:
  "outcome (get_current_live_index E store d' w) = outcome (get_current_live_index E store d w)"
  by (simp add: get_current_live_index_def invoke_outcome)

lemma resolver_fallback_log:
  "(case get_current_live_index E store d w of
      (Inl e, d'', w'') \<Rightarrow> (Inr dflt, d'', w'')
    | (Inr live, d'', w'') \<Rightarrow> (Inr live, d'', w'')) = (r, d', w') \<Longrightarrow> d' = d"
  by (auto simp: get_current_live_index_def invoke_def split: prod.splits sum.splits)

lemma resolver_fallback_outcome:
  assumes "dflt' = dflt"
  shows "outcome (case get_current_live_index E store d' w of
      (Inl e, d'', w'') \<Rightarrow> (Inr dflt', d'', w'')
    | (Inr live, d'', w'') \<Rightarrow> (Inr live, d'', w''))
   = outcome (case get_current_live_index E store d w of
      (Inl e, d'', w'') \<Rightarrow> (Inr dflt, d'', w'')
    | (Inr live, d'', w'') \<Rightarrow> (Inr live, d'', w''))"
  using assms
  by (simp add: get_current_live_index_def invoke_def outcome_def split: prod.splits sum.splits)

lemmas outcome_rules = call_kw_outcome invoke_outcome returnE_outcome check_doc_type_outcome
  settings_item_outcome resolver_outcome

lemmas object_rules = check_doc_type_log settings_item_log resolver_log resolver_fallback_log

lemma call_kw_object: "call_kw E f ex kw d w = (r, d', w') \<Longrightarrow> d' = d"
  using call_kw_log by blast

lemma invoke_object: "invoke E c d w = (r, d', w') \<Longrightarrow> d' = d"
  using invoke_log by blast

text \<open>
  The dictionary keys the operations read are taken to differ from the two CRF keys.
\<close>

lemma get_entity_dictionary_unaffected:
  assumes "ds_client_or_connection d \<noteq> PyNone"
    and "ELASTICSEARCH_DOC_TYPE E \<noteq> ELASTICSEARCH_CRF_DATA_INDEX_NAME E"
    and "ELASTICSEARCH_DOC_TYPE E \<noteq> ELASTICSEARCH_CRF_DATA_DOC_TYPE E"
    and "''request_timeout'' \<noteq> ELASTICSEARCH_CRF_DATA_INDEX_NAME E"
    and "''request_timeout'' \<noteq> ELASTICSEARCH_CRF_DATA_DOC_TYPE E"
  shows "outcome (get_entity_dictionary E n kw (without_crf_settings E d) w)
         = outcome (get_entity_dictionary E n kw d w)"
  unfolding get_entity_dictionary_def
  using assms
  apply (simp add: guard_connected without_crf_fields request_timeout_without_crf Let_def
                   returnE_outcome)
  apply (intro impI bindE_outcome_cong resolver_fallback_outcome)
                      apply (simp_all add: outcome_rules without_crf_fields)
       apply (blast dest: object_rules call_kw_object invoke_object)+
  done

lemma get_similar_dictionary_unaffected:
  assumes "ds_client_or_connection d \<noteq> PyNone"
    and "ELASTICSEARCH_DOC_TYPE E \<noteq> ELASTICSEARCH_CRF_DATA_INDEX_NAME E"
    and "ELASTICSEARCH_DOC_TYPE E \<noteq> ELASTICSEARCH_CRF_DATA_DOC_TYPE E"
    and "''request_timeout'' \<noteq> ELASTICSEARCH_CRF_DATA_INDEX_NAME E"
    and "''request_timeout'' \<noteq> ELASTICSEARCH_CRF_DATA_DOC_TYPE E"
  shows "outcome (get_similar_dictionary E n txt fz lang kw (without_crf_settings E d) w)
         = outcome (get_similar_dictionary E n txt fz lang kw d w)"
  unfolding get_similar_dictionary_def
  using assms
  apply (simp add: guard_connected without_crf_fields request_timeout_without_crf Let_def
                   returnE_outcome)
  apply (intro impI bindE_outcome_cong resolver_fallback_outcome)
                      apply (simp_all add: outcome_rules without_crf_fields)
       apply (blast dest: object_rules call_kw_object invoke_object)+
  done

lemma get_entity_supported_languages_unaffected:
  assumes "ds_client_or_connection d \<noteq> PyNone"
    and "ELASTICSEARCH_DOC_TYPE E \<noteq> ELASTICSEARCH_CRF_DATA_INDEX_NAME E"
    and "ELASTICSEARCH_DOC_TYPE E \<noteq> ELASTICSEARCH_CRF_DATA_DOC_TYPE E"
    and "''request_timeout'' \<noteq> ELASTICSEARCH_CRF_DATA_INDEX_NAME E"
    and "''request_timeout'' \<noteq> ELASTICSEARCH_CRF_DATA_DOC_TYPE E"
  shows "outcome (get_entity_supported_languages E n kw (without_crf_settings E d) w)
         = outcome (get_entity_supported_languages E n kw d w)"
  unfolding get_entity_supported_languages_def
  using assms
  apply (simp add: guard_connected without_crf_fields request_timeout_without_crf Let_def
                   returnE_outcome)
  apply (intro impI bindE_outcome_cong resolver_fallback_outcome)
                      apply (simp_all add: outcome_rules without_crf_fields)
       apply (blast dest: object_rules call_kw_object invoke_object)+
  done

lemma get_entity_unique_values_unaffected:
  assumes "ds_client_or_connection d \<noteq> PyNone"
    and "ELASTICSEARCH_DOC_TYPE E \<noteq> ELASTICSEARCH_CRF_DATA_INDEX_NAME E"
    and "ELASTICSEARCH_DOC_TYPE E \<noteq> ELASTICSEARCH_CRF_DATA_DOC_TYPE E"
    and "''request_timeout'' \<noteq> ELASTICSEARCH_CRF_DATA_INDEX_NAME E"
    and "''request_timeout'' \<noteq> ELASTICSEARCH_CRF_DATA_DOC_TYPE E"
  shows "outcome (get_entity_unique_values E n kw (without_crf_settings E d) w)
         = outcome (get_entity_unique_values E n kw d w)"
  unfolding get_entity_unique_values_def
  using assms
  apply (simp add: guard_connected without_crf_fields request_timeout_without_crf Let_def
                   returnE_outcome)
  apply (intro impI bindE_outcome_cong resolver_fallback_outcome)
                      apply (simp_all add: outcome_rules without_crf_fields)
       apply (blast dest: object_rules call_kw_object invoke_object)+
  done

lemma get_entity_data_unaffected:
  assumes "ds_client_or_connection d \<noteq> PyNone"
    and "ELASTICSEARCH_DOC_TYPE E \<noteq> ELASTICSEARCH_CRF_DATA_INDEX_NAME E"
    and "ELASTICSEARCH_DOC_TYPE E \<noteq> ELASTICSEARCH_CRF_DATA_DOC_TYPE E"
    and "''request_timeout'' \<noteq> ELASTICSEARCH_CRF_DATA_INDEX_NAME E"
    and "''request_timeout'' \<noteq> ELASTICSEARCH_CRF_DATA_DOC_TYPE E"
  shows "outcome (get_entity_data E n vs kw (without_crf_settings E d) w)
         = outcome (get_entity_data E n vs kw d w)"
  unfolding get_entity_data_def
  using assms
  apply (simp add: guard_connected without_crf_fields request_timeout_without_crf Let_def
                   returnE_outcome)
  apply (intro impI bindE_outcome_cong resolver_fallback_outcome)
                      apply (simp_all add: outcome_rules without_crf_fields)
       apply (blast dest: object_rules call_kw_object invoke_object)+
  done

lemma delete_entity_unaffected:
  assumes "ds_client_or_connection d \<noteq> PyNone"
    and "ELASTICSEARCH_DOC_TYPE E \<noteq> ELASTICSEARCH_CRF_DATA_INDEX_NAME E"
    and "ELASTICSEARCH_DOC_TYPE E \<noteq> ELASTICSEARCH_CRF_DATA_DOC_TYPE E"
    and "''request_timeout'' \<noteq> ELASTICSEARCH_CRF_DATA_INDEX_NAME E"
    and "''request_timeout'' \<noteq> ELASTICSEARCH_CRF_DATA_DOC_TYPE E"
  shows "outcome (delete_entity E n kw (without_crf_settings E d) w)
         = outcome (delete_entity E n kw d w)"
  unfolding delete_entity_def
  using assms
  apply (simp add: guard_connected without_crf_fields request_timeout_without_crf Let_def
                   returnE_outcome)
  apply (intro impI bindE_outcome_cong resolver_fallback_outcome)
                      apply (simp_all add: outcome_rules without_crf_fields)
       apply (blast dest: object_rules call_kw_object invoke_object)+
  done

lemma add_entity_data_unaffected:
  assumes "ds_client_or_connection d \<noteq> PyNone"
    and "ELASTICSEARCH_DOC_TYPE E \<noteq> ELASTICSEARCH_CRF_DATA_INDEX_NAME E"
    and "ELASTICSEARCH_DOC_TYPE E \<noteq> ELASTICSEARCH_CRF_DATA_DOC_TYPE E"
    and "''request_timeout'' \<noteq> ELASTICSEARCH_CRF_DATA_INDEX_NAME E"
    and "''request_timeout'' \<noteq> ELASTICSEARCH_CRF_DATA_DOC_TYPE E"
  shows "outcome (add_entity_data E n recs kw (without_crf_settings E d) w)
         = outcome (add_entity_data E n recs kw d w)"
  unfolding add_entity_data_def
  using assms
  apply (simp add: guard_connected without_crf_fields request_timeout_without_crf Let_def
                   returnE_outcome)
  apply (intro impI bindE_outcome_cong resolver_fallback_outcome)
                      apply (simp_all add: outcome_rules without_crf_fields)
       apply (blast dest: object_rules call_kw_object invoke_object)+
  done

lemma update_entity_data_unaffected:
  assumes "ds_client_or_connection d \<noteq> PyNone"
    and "ELASTICSEARCH_DOC_TYPE E \<noteq> ELASTICSEARCH_CRF_DATA_INDEX_NAME E"
    and "ELASTICSEARCH_DOC_TYPE E \<noteq> ELASTICSEARCH_CRF_DATA_DOC_TYPE E"
    and "''request_timeout'' \<noteq> ELASTICSEARCH_CRF_DATA_INDEX_NAME E"
    and "''request_timeout'' \<noteq> ELASTICSEARCH_CRF_DATA_DOC_TYPE E"
  shows "outcome (update_entity_data E n dat lang kw (without_crf_settings E d) w)
         = outcome (update_entity_data E n dat lang kw d w)"
  unfolding update_entity_data_def
  using assms
  apply (simp add: guard_connected without_crf_fields request_timeout_without_crf Let_def
                   returnE_outcome)
  apply (intro impI bindE_outcome_cong resolver_fallback_outcome)
                      apply (simp_all add: outcome_rules without_crf_fields)
       apply (blast dest: object_rules call_kw_object invoke_object)+
  done

lemma delete_entity_data_by_values_unaffected:
  assumes "ds_client_or_connection d \<noteq> PyNone"
    and "ELASTICSEARCH_DOC_TYPE E \<noteq> ELASTICSEARCH_CRF_DATA_INDEX_NAME E"
    and "ELASTICSEARCH_DOC_TYPE E \<noteq> ELASTICSEARCH_CRF_DATA_DOC_TYPE E"
    and "''request_timeout'' \<noteq> ELASTICSEARCH_CRF_DATA_INDEX_NAME E"
    and "''request_timeout'' \<noteq> ELASTICSEARCH_CRF_DATA_DOC_TYPE E"
  shows "outcome (delete_entity_data_by_values E n vs kw (without_crf_settings E d) w)
         = outcome (delete_entity_data_by_values E n vs kw d w)"
  unfolding delete_entity_data_by_values_def
  using assms
  apply (simp add: guard_connected without_crf_fields request_timeout_without_crf Let_def
                   returnE_outcome)
  apply (intro impI bindE_outcome_cong resolver_fallback_outcome)
                      apply (simp_all add: outcome_rules without_crf_fields)
       apply (blast dest: object_rules call_kw_object invoke_object)+
  done

lemma crf_fixture_get:
  "get_crf_data_for_entity_name
     (deployment (config_of (entities_settings @ [(''crf_index'', PyStr ''entities_crf'')]))
        (stub_backend (Inr PyNone) PyNone))
     (PyStr ''city'') []
     (store_of (entities_settings @ [(''crf_index'', PyStr ''entities_crf'')])) (fresh ())
   = (Inl DataStoreSettingsImproperlyConfiguredException,
      store_of (entities_settings @ [(''crf_index'', PyStr ''entities_crf'')]), fresh ())"
  by (simp add: get_crf_data_for_entity_name_def run_defs fixture_defs Let_def)

text \<open>
  C3, as the claim has it: with the CRF document type absent a CRF operation fails with
  \<^verbatim>\<open>IndexNotFoundException\<close>, not with the general configuration error.  On a store
  whose settings name a CRF index and no CRF document type,
  \<^verbatim>\<open>get_crf_data_for_entity_name\<close> raises the general configuration error.
\<close>

theorem crf_doc_type_absent_counterexample:
  "fst (get_crf_data_for_entity_name
     (deployment (config_of (entities_settings @ [(''crf_index'', PyStr ''entities_crf'')]))
        (stub_backend (Inr PyNone) PyNone))
     (PyStr ''city'') []
     (store_of (entities_settings @ [(''crf_index'', PyStr ''entities_crf'')])) (fresh ()))
   = Inl DataStoreSettingsImproperlyConfiguredException
   \<and> map_of (entities_settings @ [(''crf_index'', PyStr ''entities_crf'')])
        (ELASTICSEARCH_CRF_DATA_DOC_TYPE
           (deployment (config_of (entities_settings @ [(''crf_index'', PyStr ''entities_crf'')]))
              (stub_backend (Inr PyNone) PyNone))) = None"
  using crf_fixture_get by (simp add: deployment_def entities_settings_def)

text \<open>
  C3, amended.  On a connected object of the search engine:
  \<^verbatim>\<open>get_crf_data_for_entity_name\<close> fails with \<^verbatim>\<open>IndexNotFoundException\<close> when the CRF
  index name is absent, and \<^verbatim>\<open>update_entity_crf_data\<close> does when the CRF index name is
  absent and the CRF document type present; when the CRF index name is configured and the
  CRF document type absent, both fail with
  \<^verbatim>\<open>DataStoreSettingsImproperlyConfiguredException\<close>; none of these calls the backend.
  The dictionary operations do not read the two CRF settings: removing them from the
  object changes neither what an operation returns or raises nor what it does to the
  backend.
\<close>

theorem crf_operations_fail_fast:
  assumes "ds_engine d = PyStr (ELASTICSEARCH E)" and "ds_client_or_connection d \<noteq> PyNone"
  shows "(dict_get (ds_connection_settings d) (ELASTICSEARCH_CRF_DATA_INDEX_NAME E) = PyNone \<longrightarrow>
            get_crf_data_for_entity_name E n kw d w = (Inl IndexNotFoundException, d, w))
       \<and> (dict_get (ds_connection_settings d) (ELASTICSEARCH_CRF_DATA_INDEX_NAME E) = PyNone
            \<and> dict_in (ELASTICSEARCH_CRF_DATA_DOC_TYPE E) (ds_connection_settings d) \<longrightarrow>
            update_entity_crf_data E n ents lang sents kw d w = (Inl IndexNotFoundException, d, w))
       \<and> (dict_get (ds_connection_settings d) (ELASTICSEARCH_CRF_DATA_INDEX_NAME E) \<noteq> PyNone
            \<and> \<not> dict_in (ELASTICSEARCH_CRF_DATA_DOC_TYPE E) (ds_connection_settings d) \<longrightarrow>
            get_crf_data_for_entity_name E n kw d w
              = (Inl DataStoreSettingsImproperlyConfiguredException, d, w)
            \<and> update_entity_crf_data E n ents lang sents kw d w
              = (Inl DataStoreSettingsImproperlyConfiguredException, d, w))
       \<and> (ELASTICSEARCH_DOC_TYPE E \<noteq> ELASTICSEARCH_CRF_DATA_INDEX_NAME E
            \<and> ELASTICSEARCH_DOC_TYPE E \<noteq> ELASTICSEARCH_CRF_DATA_DOC_TYPE E
            \<and> ''request_timeout'' \<noteq> ELASTICSEARCH_CRF_DATA_INDEX_NAME E
            \<and> ''request_timeout'' \<noteq> ELASTICSEARCH_CRF_DATA_DOC_TYPE E \<longrightarrow>
            outcome (get_entity_dictionary E n kw (without_crf_settings E d) w)
              = outcome (get_entity_dictionary E n kw d w)
            \<and> outcome (get_similar_dictionary E n txt fz lang kw (without_crf_settings E d) w)
              = outcome (get_similar_dictionary E n txt fz lang kw d w)
            \<and> outcome (get_entity_supported_languages E n kw (without_crf_settings E d) w)
              = outcome (get_entity_supported_languages E n kw d w)
            \<and> outcome (get_entity_unique_values E n kw (without_crf_settings E d) w)
              = outcome (get_entity_unique_values E n kw d w)
            \<and> outcome (get_entity_data E n vs kw (without_crf_settings E d) w)
              = outcome (get_entity_data E n vs kw d w)
            \<and> outcome (delete_entity E n kw (without_crf_settings E d) w)
              = outcome (delete_entity E n kw d w)
            \<and> outcome (add_entity_data E n recs kw (without_crf_settings E d) w)
              = outcome (add_entity_data E n recs kw d w)
            \<and> outcome (update_entity_data E n dat lang kw (without_crf_settings E d) w)
              = outcome (update_entity_data E n dat lang kw d w)
            \<and> outcome (delete_entity_data_by_values E n vs kw (without_crf_settings E d) w)
              = outcome (delete_entity_data_by_values E n vs kw d w))"
proof -
  have crf: "(dict_get (ds_connection_settings d) (ELASTICSEARCH_CRF_DATA_INDEX_NAME E) = PyNone \<longrightarrow>
            get_crf_data_for_entity_name E n kw d w = (Inl IndexNotFoundException, d, w))
       \<and> (dict_get (ds_connection_settings d) (ELASTICSEARCH_CRF_DATA_INDEX_NAME E) = PyNone
            \<and> dict_in (ELASTICSEARCH_CRF_DATA_DOC_TYPE E) (ds_connection_settings d) \<longrightarrow>
            update_entity_crf_data E n ents lang sents kw d w = (Inl IndexNotFoundException, d, w))
       \<and> (dict_get (ds_connection_settings d) (ELASTICSEARCH_CRF_DATA_INDEX_NAME E) \<noteq> PyNone
            \<and> \<not> dict_in (ELASTICSEARCH_CRF_DATA_DOC_TYPE E) (ds_connection_settings d) \<longrightarrow>
            get_crf_data_for_entity_name E n kw d w
              = (Inl DataStoreSettingsImproperlyConfiguredException, d, w)
            \<and> update_entity_crf_data E n ents lang sents kw d w
              = (Inl DataStoreSettingsImproperlyConfiguredException, d, w))"
    using assms
    by (simp add: get_crf_data_for_entity_name_def update_entity_crf_data_def
                  connect_if_none_def bindE_def raiseE_def
                  check_doc_type_for_crf_data_elasticsearch_def)
  note u = get_entity_dictionary_unaffected[OF assms(2), where E = E] get_similar_dictionary_unaffected[OF assms(2), where E = E] get_entity_supported_languages_unaffected[OF assms(2), where E = E] get_entity_unique_values_unaffected[OF assms(2), where E = E] get_entity_data_unaffected[OF assms(2), where E = E]
    delete_entity_unaffected[OF assms(2), where E = E] add_entity_data_unaffected[OF assms(2), where E = E] update_entity_data_unaffected[OF assms(2), where E = E] delete_entity_data_by_values_unaffected[OF assms(2), where E = E]
  from crf u show ?thesis by (intro conjI impI) simp_all
qed

theorem crf_operations_fail_fast_witness:
  "fst (get_crf_data_for_entity_name
          (deployment (config_of entities_settings) (stub_backend (Inr PyNone) PyNone))
          (PyStr ''city'') [] (store_of entities_settings) (fresh ()))
     = Inl IndexNotFoundException
   \<and> fst (update_entity_crf_data
          (deployment (config_of entities_settings) (stub_backend (Inr PyNone) PyNone))
          (PyStr ''city'') (PyList []) (PyStr ''en'') (PyList []) []
          (store_of (entities_settings @ [(''crf_doc_type'', PyStr ''crf'')])) (fresh ()))
     = Inl IndexNotFoundException
   \<and> fst (get_crf_data_for_entity_name
          (deployment (config_of entities_settings) (stub_backend (Inr PyNone) PyNone))
          (PyStr ''city'') []
          (store_of (entities_settings @ [(''crf_index'', PyStr ''entities_crf'')])) (fresh ()))
     = Inl DataStoreSettingsImproperlyConfiguredException
   \<and> fst (update_entity_crf_data
          (deployment (config_of entities_settings) (stub_backend (Inr PyNone) PyNone))
          (PyStr ''city'') (PyList []) (PyStr ''en'') (PyList []) []
          (store_of (entities_settings @ [(''crf_index'', PyStr ''entities_crf'')])) (fresh ()))
     = Inl DataStoreSettingsImproperlyConfiguredException
   \<and> outcome (get_entity_dictionary
          (deployment (config_of entities_settings) (stub_backend (Inr PyNone) PyNone))
          (PyStr ''city'') [] (store_of entities_settings) (fresh ()))
     = outcome (get_entity_dictionary
          (deployment (config_of entities_settings) (stub_backend (Inr PyNone) PyNone))
          (PyStr ''city'') []
          (store_of (entities_settings @ [(''crf_index'', PyStr ''entities_crf'')])) (fresh ()))"
proof -
  let ?E = "deployment (config_of entities_settings) (stub_backend (Inr PyNone) PyNone) :: unit env"
  let ?s2 = "entities_settings @ [(''crf_doc_type'', PyStr ''crf'')]"
  let ?s3 = "entities_settings @ [(''crf_index'', PyStr ''entities_crf'')]"
  have e: "ds_engine (store_of s) = PyStr (ELASTICSEARCH ?E)" for s
    by (simp add: store_of_def deployment_def)
  have h: "ds_client_or_connection (store_of s) \<noteq> PyNone" for s
    by (simp add: store_of_def)
  have w: "without_crf_settings ?E (store_of ?s3) = store_of entities_settings"
    by (simp add: without_crf_settings_def store_of_def deployment_def entities_settings_def)
  have k: "ELASTICSEARCH_DOC_TYPE ?E \<noteq> ELASTICSEARCH_CRF_DATA_INDEX_NAME ?E
           \<and> ELASTICSEARCH_DOC_TYPE ?E \<noteq> ELASTICSEARCH_CRF_DATA_DOC_TYPE ?E
           \<and> ''request_timeout'' \<noteq> ELASTICSEARCH_CRF_DATA_INDEX_NAME ?E
           \<and> ''request_timeout'' \<noteq> ELASTICSEARCH_CRF_DATA_DOC_TYPE ?E"
    by (simp add: deployment_def)
  have 1: "dict_get (ds_connection_settings (store_of entities_settings))
             (ELASTICSEARCH_CRF_DATA_INDEX_NAME ?E) = PyNone"
    by (simp add: store_of_def deployment_def entities_settings_def dict_get_def)
  have 2: "dict_get (ds_connection_settings (store_of ?s2))
             (ELASTICSEARCH_CRF_DATA_INDEX_NAME ?E) = PyNone
           \<and> dict_in (ELASTICSEARCH_CRF_DATA_DOC_TYPE ?E) (ds_connection_settings (store_of ?s2))"
    by (simp add: store_of_def deployment_def entities_settings_def dict_get_def dict_in_def)
  have 3: "dict_get (ds_connection_settings (store_of ?s3))
             (ELASTICSEARCH_CRF_DATA_INDEX_NAME ?E) \<noteq> PyNone
           \<and> \<not> dict_in (ELASTICSEARCH_CRF_DATA_DOC_TYPE ?E) (ds_connection_settings (store_of ?s3))"
    by (simp add: store_of_def deployment_def entities_settings_def dict_get_def dict_in_def)
  from crf_operations_fail_fast[OF e h, of entities_settings "PyStr ''city''" "[]" "fresh ()"] 1
  have a: "fst (get_crf_data_for_entity_name ?E (PyStr ''city'') [] (store_of entities_settings)
                  (fresh ())) = Inl IndexNotFoundException"
    by simp
  from crf_operations_fail_fast[OF e h, of ?s2 "PyStr ''city''" "[]" "fresh ()"
         "PyList []" "PyStr ''en''" "PyList []"] 2
  have b: "fst (update_entity_crf_data ?E (PyStr ''city'') (PyList []) (PyStr ''en'') (PyList []) []
                  (store_of ?s2) (fresh ())) = Inl IndexNotFoundException"
    by simp
  from crf_operations_fail_fast[OF e h, of ?s3 "PyStr ''city''" "[]" "fresh ()"
         "PyList []" "PyStr ''en''" "PyList []"] 3 k w
  have c: "fst (get_crf_data_for_entity_name ?E (PyStr ''city'') [] (store_of ?s3) (fresh ()))
             = Inl DataStoreSettingsImproperlyConfiguredException
         \<and> fst (update_entity_crf_data ?E (PyStr ''city'') (PyList []) (PyStr ''en'') (PyList []) []
                  (store_of ?s3) (fresh ())) = Inl DataStoreSettingsImproperlyConfiguredException
         \<and> outcome (get_entity_dictionary ?E (PyStr ''city'') [] (store_of entities_settings) (fresh ()))
           = outcome (get_entity_dictionary ?E (PyStr ''city'') [] (store_of ?s3) (fresh ()))"
    by simp
  from a b c show ?thesis by simp
qed


subsection \<open>Transfer between clusters\<close>

text \<open>
  C8: \<^verbatim>\<open>transfer_entities_elastic_search\<close> raises \<^verbatim>\<open>NonESEngineTransferException\<close> on
  an object whose engine is not the search engine, before anything else.  Otherwise the
  source is the \<^verbatim>\<open>connection_url\<close> of the engine's settings in the configuration when
  there is one, and else what \<^verbatim>\<open>get_es_url\<close> of the backend returns; when that is
  \<^verbatim>\<open>None\<close> too, \<^verbatim>\<open>DataStoreSettingsImproperlyConfiguredException\<close> is raised.  The
  destination is the \<^verbatim>\<open>destination_url\<close> of the same settings.
\<close>

theorem transfer_entities_source_and_destination:
  "(ds_engine d \<noteq> PyStr (ELASTICSEARCH E) \<longrightarrow>
      transfer_entities_elastic_search E ents d w = (Inl NonESEngineTransferException, d, w))
 \<and> (ds_engine d = PyStr (ELASTICSEARCH E)
      \<and> as_dict (dict_get (CHATBOT_NER_DATASTORE E) (ELASTICSEARCH E)) = Some s
      \<and> dict_get s ''connection_url'' \<noteq> PyNone \<longrightarrow>
      transfer_entities_elastic_search E ents d w
        = transfer_specific_entities E (dict_get s ''connection_url'')
            (dict_get s ''destination_url'') ents d w)
 \<and> (ds_engine d = PyStr (ELASTICSEARCH E)
      \<and> as_dict (dict_get (CHATBOT_NER_DATASTORE E) (ELASTICSEARCH E)) = Some s
      \<and> dict_get s ''connection_url'' = PyNone
      \<and> elastic_search E (Call ''elastic_search.connect.get_es_url'' [] []) (es w) = (Inr url, b)
      \<and> url \<noteq> PyNone \<longrightarrow>
      transfer_entities_elastic_search E ents d w
        = transfer_specific_entities E url (dict_get s ''destination_url'') ents d
            \<lparr>calls = calls w @ [(Call ''elastic_search.connect.get_es_url'' [] [], Inr url)],
             es = b\<rparr>)
 \<and> (ds_engine d = PyStr (ELASTICSEARCH E)
      \<and> as_dict (dict_get (CHATBOT_NER_DATASTORE E) (ELASTICSEARCH E)) = Some s
      \<and> dict_get s ''connection_url'' = PyNone
      \<and> elastic_search E (Call ''elastic_search.connect.get_es_url'' [] []) (es w) = (Inr PyNone, b)
      \<longrightarrow>
      transfer_entities_elastic_search E ents d w
        = (Inl DataStoreSettingsImproperlyConfiguredException, d,
           \<lparr>calls = calls w @ [(Call ''elastic_search.connect.get_es_url'' [] [], Inr PyNone)],
            es = b\<rparr>))"
  by (simp add: transfer_entities_elastic_search_def py_get_def bindE_def returnE_def raiseE_def
                invoke_def)

theorem transfer_entities_source_and_destination_witness:
  "transfer_entities_elastic_search
     (deployment (config_of entities_settings) (stub_backend (Inr PyNone) PyNone))
     (PyList [PyStr ''city'']) ((store_of entities_settings)\<lparr>ds_engine := PyStr ''mysql''\<rparr>)
     (fresh ())
   = (Inl NonESEngineTransferException,
      (store_of entities_settings)\<lparr>ds_engine := PyStr ''mysql''\<rparr>, fresh ())
   \<and> transfer_entities_elastic_search
     (deployment (config_of ((''connection_url'', PyStr ''http://source:9200'') #
                             (''destination_url'', PyStr ''http://target:9200'') #
                             entities_settings))
        (stub_backend (Inr PyNone) (PyStr ''http://found:9200'')))
     (PyList [PyStr ''city'']) (store_of entities_settings) (fresh ())
   = (Inr PyNone, store_of entities_settings,
      \<lparr>calls = [(Call ''elastic_search.transfer.ESTransfer'' []
                   [(''source'', PyStr ''http://source:9200''),
                    (''destination'', PyStr ''http://target:9200'')], Inr PyNone),
                (Call ''ESTransfer.transfer_specific_entities'' [PyNone]
                   [(''list_of_entities'', PyList [PyStr ''city''])], Inr PyNone)],
       es = ()\<rparr>)
   \<and> transfer_entities_elastic_search
     (deployment (config_of ((''destination_url'', PyStr ''http://target:9200'') #
                             entities_settings))
        (stub_backend (Inr PyNone) (PyStr ''http://found:9200'')))
     (PyList [PyStr ''city'']) (store_of entities_settings) (fresh ())
   = (Inr PyNone, store_of entities_settings,
      \<lparr>calls = [(Call ''elastic_search.connect.get_es_url'' [] [],
                 Inr (PyStr ''http://found:9200'')),
                (Call ''elastic_search.transfer.ESTransfer'' []
                   [(''source'', PyStr ''http://found:9200''),
                    (''destination'', PyStr ''http://target:9200'')], Inr PyNone),
                (Call ''ESTransfer.transfer_specific_entities'' [PyNone]
                   [(''list_of_entities'', PyList [PyStr ''city''])], Inr PyNone)],
       es = ()\<rparr>)
   \<and> transfer_entities_elastic_search
     (deployment (config_of entities_settings) (stub_backend (Inr PyNone) PyNone))
     (PyList [PyStr ''city'']) (store_of entities_settings) (fresh ())
   = (Inl DataStoreSettingsImproperlyConfiguredException, store_of entities_settings,
      \<lparr>calls = [(Call ''elastic_search.connect.get_es_url'' [] [], Inr PyNone)], es = ()\<rparr>)"
proof -
  let ?c2 = "(''connection_url'', PyStr ''http://source:9200'') #
             (''destination_url'', PyStr ''http://target:9200'') # entities_settings"
  let ?c3 = "(''destination_url'', PyStr ''http://target:9200'') # entities_settings"
  let ?E1 = "deployment (config_of entities_settings) (stub_backend (Inr PyNone) PyNone) :: unit env"
  let ?E2 = "deployment (config_of ?c2) (stub_backend (Inr PyNone) (PyStr ''http://found:9200'')) :: unit env"
  let ?E3 = "deployment (config_of ?c3) (stub_backend (Inr PyNone) (PyStr ''http://found:9200'')) :: unit env"
  let ?d = "store_of entities_settings"
  let ?ents = "PyList [PyStr ''city'']"
  have s: "as_dict (dict_get (CHATBOT_NER_DATASTORE (deployment (config_of c) k))
             (ELASTICSEARCH (deployment (config_of c) k))) = Some c" for c and k :: "unit backend"
    by (simp add: deployment_def config_of_def dict_get_def)
  have e: "ds_engine ?d = PyStr (ELASTICSEARCH (deployment c k))" for c and k :: "unit backend"
    by (simp add: deployment_def store_of_def)
  have 1: "transfer_entities_elastic_search ?E1 ?ents (?d\<lparr>ds_engine := PyStr ''mysql''\<rparr>) (fresh ())
           = (Inl NonESEngineTransferException, ?d\<lparr>ds_engine := PyStr ''mysql''\<rparr>, fresh ())"
    using transfer_entities_source_and_destination
            [of "?d\<lparr>ds_engine := PyStr ''mysql''\<rparr>" ?E1 ?ents "fresh ()"]
    by (simp add: deployment_def)
  have 2: "transfer_entities_elastic_search ?E2 ?ents ?d (fresh ())
           = transfer_specific_entities ?E2 (PyStr ''http://source:9200'')
               (PyStr ''http://target:9200'') ?ents ?d (fresh ())"
    using transfer_entities_source_and_destination[of ?d ?E2 ?ents "fresh ()" ?c2] s[of ?c2] e
    by (simp add: dict_get_def entities_settings_def)
  have 3: "transfer_entities_elastic_search ?E3 ?ents ?d (fresh ())
           = transfer_specific_entities ?E3 (PyStr ''http://found:9200'')
               (PyStr ''http://target:9200'') ?ents ?d
               \<lparr>calls = [(Call ''elastic_search.connect.get_es_url'' [] [],
                          Inr (PyStr ''http://found:9200''))], es = ()\<rparr>"
    using transfer_entities_source_and_destination
            [of ?d ?E3 ?ents "fresh ()" ?c3 "PyStr ''http://found:9200''" "()"] s[of ?c3] e
    by (simp add: dict_get_def entities_settings_def deployment_def stub_backend_def fresh_def)
  have 4: "transfer_entities_elastic_search ?E1 ?ents ?d (fresh ())
           = (Inl DataStoreSettingsImproperlyConfiguredException, ?d,
              \<lparr>calls = [(Call ''elastic_search.connect.get_es_url'' [] [], Inr PyNone)], es = ()\<rparr>)"
    using transfer_entities_source_and_destination
            [of ?d ?E1 ?ents "fresh ()" entities_settings _ "()"] s[of entities_settings] e
    by (simp add: dict_get_def entities_settings_def deployment_def stub_backend_def fresh_def)
  show ?thesis
    unfolding 1 2 3 4
    by (simp add: transfer_specific_entities_def run_defs fixture_defs)
qed

subsection \<open>Live-index resolution that fails\<close>

text \<open>
  C2: when the resolver of the live index raises, the claim has all three mutations fall
  back to the store name.  In the source only \<^verbatim>\<open>update_entity_data\<close> wraps the resolver
  in \<^verbatim>\<open>try ... except\<close>.  With a resolver that raises, \<^verbatim>\<open>add_entity_data\<close> and
  \<^verbatim>\<open>delete_entity_data_by_values\<close> raise the resolver's exception and write nothing,
  while \<^verbatim>\<open>update_entity_data\<close> writes to the store name.
\<close>

theorem resolver_failure_propagates:
  "add_entity_data
     (deployment (config_of entities_settings)
        (stub_backend (Inl (OtherException ''ConnectionError'')) PyNone))
     (PyStr ''city'') (PyList []) [] (store_of entities_settings) (fresh ())
   = (Inl (OtherException ''ConnectionError''), store_of entities_settings,
      \<lparr>calls = [(Call ''elastic_search.connect.get_current_live_index'' [PyStr ''entities''] [],
                 Inl (OtherException ''ConnectionError''))], es = ()\<rparr>)
   \<and> delete_entity_data_by_values
     (deployment (config_of entities_settings)
        (stub_backend (Inl (OtherException ''ConnectionError'')) PyNone))
     (PyStr ''city'') PyNone [] (store_of entities_settings) (fresh ())
   = (Inl (OtherException ''ConnectionError''), store_of entities_settings,
      \<lparr>calls = [(Call ''elastic_search.connect.get_current_live_index'' [PyStr ''entities''] [],
                 Inl (OtherException ''ConnectionError''))], es = ()\<rparr>)
   \<and> update_entity_data
     (deployment (config_of entities_settings)
        (stub_backend (Inl (OtherException ''ConnectionError'')) PyNone))
     (PyStr ''city'') (PyList []) (PyStr ''en'') [] (store_of entities_settings) (fresh ())
   = (Inr PyNone, store_of entities_settings,
      \<lparr>calls = [(Call ''elastic_search.connect.get_current_live_index'' [PyStr ''entities''] [],
                 Inl (OtherException ''ConnectionError'')),
                (Call ''elastic_search.populate.entity_data_update'' []
                   [(''connection'', PyStr ''client''), (''index_name'', PyStr ''entities''),
                    (''doc_type'', PyStr ''data''), (''logger'', PyStr ''ner_logger''),
                    (''entity_data'', PyList []), (''entity_name'', PyStr ''city''),
                    (''language_script'', PyStr ''en'')], Inr PyNone)], es = ()\<rparr>)"
  by (simp add: add_entity_data_def delete_entity_data_by_values_def update_entity_data_def
                run_defs fixture_defs)


subsection \<open>The index a call is addressed to\<close>

lemma guard_calls:
  assumes run: "bindE (connect_if_none E) body d w = (r, d', w')"
    and body: "\<And>d0 w0. body PyNone d0 w0 = (r, d', w') \<Longrightarrow>
                 d' = d0 \<and> (\<exists>ys. calls w' = calls w0 @ ys \<and> (\<forall>x\<in>set ys. P d0 (set ys) x))"
    and mono: "\<And>d0 A B x. A \<subseteq> B \<Longrightarrow> P d0 A x \<Longrightarrow> P d0 B x"
  shows "\<forall>x\<in>set (issued w w').
           fst x = connect_call (ds_connection_settings d') \<or> P d' (set (issued w w')) x"
proof (cases "ds_client_or_connection d = PyNone")
  case False
  with run have "body PyNone d w = (r, d', w')"
    by (simp add: bindE_def connect_if_none_def)
  from body[OF this] obtain ys where "calls w' = calls w @ ys" "\<forall>x\<in>set ys. P d' (set ys) x"
    by auto
  then show ?thesis by (simp add: issued_append)
next
  case True
  obtain r1 d1 w1 where c: "ds_connect E d w = (r1, d1, w1)"
    by (cases "ds_connect E d w") auto
  show ?thesis
  proof (cases r1)
    case (Inl e)
    with run True c have eq: "d' = d1" "w' = w1"
      by (simp_all add: bindE_def connect_if_none_def)
    from ds_connect_Inl[OF c[unfolded Inl]] eq
    have "issued w w' = [] \<or> (\<exists>out. issued w w' = [(connect_call (ds_connection_settings d'), out)])"
      by (auto simp: issued_append)
    then show ?thesis by auto
  next
    case (Inr a)
    from ds_connect_Inr[OF c[unfolded Inr]] have a: "a = PyNone"
      and s: "ds_connection_settings d1 = ds_connection_settings d"
      and l: "calls w1 = calls w @ [(connect_call (ds_connection_settings d),
                                     Inr (ds_client_or_connection d1))]"
      by simp_all
    from run True c Inr a have "body PyNone d1 w1 = (r, d', w')"
      by (simp add: bindE_def connect_if_none_def)
    from body[OF this] obtain ys where y: "d' = d1" "calls w' = calls w1 @ ys"
      "\<forall>x\<in>set ys. P d' (set ys) x" by auto
    with l s have i: "issued w w' = (connect_call (ds_connection_settings d'),
                                     Inr (ds_client_or_connection d1)) # ys"
      by (simp add: issued_append)
    have "P d' (set (issued w w')) x" if "x \<in> set ys" for x
      using y(3) that mono[of "set ys" "set (issued w w')" d' x] i by auto
    with i show ?thesis by auto
  qed
qed

lemma resolver_call_log:
  "get_current_live_index E store d w = (r, d', w') \<Longrightarrow>
     d' = d \<and> calls w' = calls w @ [(resolver_call store, r)]"
  by (auto simp: get_current_live_index_def resolver_call_def invoke_def split: prod.splits)

lemma get_entity_dictionary_calls:
  assumes "get_entity_dictionary E n kw d w = (r, d', w')"
  shows "\<forall>x\<in>set (issued w w').
           fst x = connect_call (ds_connection_settings d')
           \<or> (function_of (fst x) = ''elastic_search.query.dictionary_query''
              \<and> index_name_of (fst x) = Some (ds_store_name d'))"
  using assms unfolding get_entity_dictionary_def
  apply (rule guard_calls[where P = "\<lambda>d0 A x. function_of (fst x) = ''elastic_search.query.dictionary_query''
              \<and> index_name_of (fst x) = Some (ds_store_name d0)"])
   apply (simp add: Let_def split: if_splits)
    apply (elim bindE_elim;
           (drule check_doc_type_log settings_item_log call_kw_log)+)
        apply (auto simp: returnE_def function_of_def index_name_of_def)
  done

lemma get_similar_dictionary_calls:
  assumes "get_similar_dictionary E n txt fz lang kw d w = (r, d', w')"
  shows "\<forall>x\<in>set (issued w w').
           fst x = connect_call (ds_connection_settings d')
           \<or> (function_of (fst x) = ''elastic_search.query.full_text_query''
              \<and> index_name_of (fst x) = Some (ds_store_name d'))"
  using assms unfolding get_similar_dictionary_def
  apply (rule guard_calls[where P = "\<lambda>d0 A x. function_of (fst x) = ''elastic_search.query.full_text_query''
              \<and> index_name_of (fst x) = Some (ds_store_name d0)"])
   apply (simp add: Let_def split: if_splits)
    apply (elim bindE_elim;
           (drule check_doc_type_log settings_item_log call_kw_log)+)
        apply (auto simp: returnE_def function_of_def index_name_of_def)
  done

lemma get_entity_unique_values_calls:
  assumes "get_entity_unique_values E n kw d w = (r, d', w')"
  shows "\<forall>x\<in>set (issued w w').
           fst x = connect_call (ds_connection_settings d')
           \<or> (function_of (fst x) = ''elastic_search.query.get_entity_unique_values''
              \<and> index_name_of (fst x) = Some (ds_store_name d'))"
  using assms unfolding get_entity_unique_values_def
  apply (rule guard_calls[where P = "\<lambda>d0 A x. function_of (fst x) = ''elastic_search.query.get_entity_unique_values''
              \<and> index_name_of (fst x) = Some (ds_store_name d0)"])
   apply (simp add: Let_def split: if_splits)
    apply (elim bindE_elim;
           (drule check_doc_type_log settings_item_log call_kw_log)+)
        apply (auto simp: returnE_def function_of_def index_name_of_def)
  done

lemma get_entity_supported_languages_calls:
  assumes "get_entity_supported_languages E n kw d w = (r, d', w')"
  shows "\<forall>x\<in>set (issued w w').
           fst x = connect_call (ds_connection_settings d')
           \<or> (function_of (fst x) = ''elastic_search.query.get_entity_supported_languages''
              \<and> index_name_of (fst x) = Some (ds_store_name d'))"
  using assms unfolding get_entity_supported_languages_def
  apply (rule guard_calls[where P = "\<lambda>d0 A x. function_of (fst x) = ''elastic_search.query.get_entity_supported_languages''
              \<and> index_name_of (fst x) = Some (ds_store_name d0)"])
   apply (simp add: Let_def split: if_splits)
    apply (elim bindE_elim;
           (drule check_doc_type_log settings_item_log call_kw_log)+)
        apply (auto simp: returnE_def function_of_def index_name_of_def)
  done

lemma get_entity_data_calls:
  assumes "get_entity_data E n vs kw d w = (r, d', w')"
  shows "\<forall>x\<in>set (issued w w').
           fst x = connect_call (ds_connection_settings d')
           \<or> (function_of (fst x) = ''elastic_search.query.get_entity_data''
              \<and> index_name_of (fst x) = Some (ds_store_name d'))"
  using assms unfolding get_entity_data_def
  apply (rule guard_calls[where P = "\<lambda>d0 A x. function_of (fst x) = ''elastic_search.query.get_entity_data''
              \<and> index_name_of (fst x) = Some (ds_store_name d0)"])
   apply (simp add: Let_def split: if_splits)
    apply (elim bindE_elim;
           (drule check_doc_type_log settings_item_log call_kw_log)+)
        apply (auto simp: returnE_def function_of_def index_name_of_def)
  done

lemma delete_entity_calls:
  assumes "delete_entity E n kw d w = (r, d', w')"
  shows "\<forall>x\<in>set (issued w w').
           fst x = connect_call (ds_connection_settings d')
           \<or> (function_of (fst x) = ''elastic_search.populate.delete_entity_by_name''
              \<and> index_name_of (fst x) = Some (ds_store_name d'))"
  using assms unfolding delete_entity_def
  apply (rule guard_calls[where P = "\<lambda>d0 A x. function_of (fst x) = ''elastic_search.populate.delete_entity_by_name''
              \<and> index_name_of (fst x) = Some (ds_store_name d0)"])
   apply (simp add: Let_def split: if_splits)
    apply (elim bindE_elim;
           (drule check_doc_type_log settings_item_log call_kw_log)+)
        apply (auto simp: returnE_def function_of_def index_name_of_def)
  done

lemma add_entity_data_calls:
  assumes "add_entity_data E n recs kw d w = (r, d', w')"
  shows "\<forall>x\<in>set (issued w w').
           fst x = connect_call (ds_connection_settings d')
           \<or> (fst x = resolver_call (ds_store_name d')
              \<or> function_of (fst x) = ''elastic_search.populate.add_entity_data''
                \<and> (\<exists>live. (resolver_call (ds_store_name d'), Inr live) \<in> set (issued w w')
                     \<and> index_name_of (fst x) = Some live))"
  using assms unfolding add_entity_data_def
  apply (rule guard_calls[where P = "\<lambda>d0 A x. fst x = resolver_call (ds_store_name d0)
              \<or> function_of (fst x) = ''elastic_search.populate.add_entity_data''
                \<and> (\<exists>live. (resolver_call (ds_store_name d0), Inr live) \<in> A
                     \<and> index_name_of (fst x) = Some live)"])
   apply (simp add: Let_def split: if_splits)
    apply (elim bindE_elim;
           (drule check_doc_type_log settings_item_log call_kw_log resolver_call_log)+)
         apply (auto simp: returnE_def function_of_def index_name_of_def resolver_call_def
                     dest!: resolver_call_log)
  done

lemma delete_entity_data_by_values_calls:
  assumes "delete_entity_data_by_values E n vs kw d w = (r, d', w')"
  shows "\<forall>x\<in>set (issued w w').
           fst x = connect_call (ds_connection_settings d')
           \<or> (fst x = resolver_call (ds_store_name d')
              \<or> function_of (fst x) = ''elastic_search.populate.delete_entity_data_by_values''
                \<and> (\<exists>live. (resolver_call (ds_store_name d'), Inr live) \<in> set (issued w w')
                     \<and> index_name_of (fst x) = Some live))"
  using assms unfolding delete_entity_data_by_values_def
  apply (rule guard_calls[where P = "\<lambda>d0 A x. fst x = resolver_call (ds_store_name d0)
              \<or> function_of (fst x) = ''elastic_search.populate.delete_entity_data_by_values''
                \<and> (\<exists>live. (resolver_call (ds_store_name d0), Inr live) \<in> A
                     \<and> index_name_of (fst x) = Some live)"])
   apply (simp add: Let_def split: if_splits)
    apply (elim bindE_elim;
           (drule check_doc_type_log settings_item_log call_kw_log resolver_call_log)+)
         apply (auto simp: returnE_def function_of_def index_name_of_def resolver_call_def
                     dest!: resolver_call_log)
  done

lemma update_entity_data_calls:
  assumes "update_entity_data E n dat lang kw d w = (r, d', w')"
  shows "\<forall>x\<in>set (issued w w').
           fst x = connect_call (ds_connection_settings d')
           \<or> (fst x = resolver_call (ds_store_name d')
              \<or> function_of (fst x) = ''elastic_search.populate.entity_data_update''
                \<and> ((\<exists>live. (resolver_call (ds_store_name d'), Inr live) \<in> set (issued w w')
                      \<and> index_name_of (fst x) = Some live)
                   \<or> (\<exists>e. (resolver_call (ds_store_name d'), Inl e) \<in> set (issued w w')
                      \<and> index_name_of (fst x) = Some (ds_store_name d'))))"
  using assms unfolding update_entity_data_def
  apply (rule guard_calls[where P = "\<lambda>d0 A x. fst x = resolver_call (ds_store_name d0)
              \<or> function_of (fst x) = ''elastic_search.populate.entity_data_update''
                \<and> ((\<exists>live. (resolver_call (ds_store_name d0), Inr live) \<in> A
                      \<and> index_name_of (fst x) = Some live)
                   \<or> (\<exists>e. (resolver_call (ds_store_name d0), Inl e) \<in> A
                      \<and> index_name_of (fst x) = Some (ds_store_name d0)))"])
   apply (simp add: Let_def split: if_splits)
    apply (elim bindE_elim;
           (drule check_doc_type_log settings_item_log call_kw_log)+)
         apply (auto simp: returnE_def function_of_def index_name_of_def resolver_call_def
                           get_current_live_index_def invoke_def
                     split: prod.splits sum.splits)
  done

lemma live_fixture:
  "elastic_search (deployment (config_of entities_settings)
                     (stub_backend (Inr (PyStr ''entities_v2'')) PyNone))
     (Call ''elastic_search.connect.get_current_live_index'' [PyStr ''entities''] []) ()
   = (Inr (PyStr ''entities_v2''), ())"
  by (simp add: fixture_defs)

lemma delete_entity_fixture:
  "delete_entity (deployment (config_of entities_settings)
                    (stub_backend (Inr (PyStr ''entities_v2'')) PyNone))
     (PyStr ''city'') [] (store_of entities_settings) (fresh ())
   = (Inr PyNone, store_of entities_settings,
      \<lparr>calls = [(Call ''elastic_search.populate.delete_entity_by_name'' []
                   [(''connection'', PyStr ''client''), (''index_name'', PyStr ''entities''),
                    (''doc_type'', PyStr ''data''), (''entity_name'', PyStr ''city''),
                    (''logger'', PyStr ''ner_logger''),
                    (''ignore'', PyList [PyInt 400, PyInt 404])], Inr PyNone)],
       es = ()\<rparr>)"
  by (simp add: delete_entity_def run_defs fixture_defs)

lemma add_entity_data_fixture:
  "add_entity_data (deployment (config_of entities_settings)
                      (stub_backend (Inr (PyStr ''entities_v2'')) PyNone))
     (PyStr ''city'') (PyList []) [] (store_of entities_settings) (fresh ())
   = (Inr PyNone, store_of entities_settings,
      \<lparr>calls = [(Call ''elastic_search.connect.get_current_live_index'' [PyStr ''entities''] [],
                 Inr (PyStr ''entities_v2'')),
                (Call ''elastic_search.populate.add_entity_data'' []
                   [(''connection'', PyStr ''client''), (''index_name'', PyStr ''entities_v2''),
                    (''doc_type'', PyStr ''data''), (''entity_name'', PyStr ''city''),
                    (''value_variant_records'', PyList [])], Inr PyNone)],
       es = ()\<rparr>)"
  by (simp add: add_entity_data_def run_defs fixture_defs)

lemma get_entity_data_fixture:
  "get_entity_data (deployment (config_of entities_settings)
                      (stub_backend (Inr (PyStr ''entities_v2'')) PyNone))
     (PyStr ''city'') PyNone [] (store_of entities_settings) (fresh ())
   = (Inr PyNone, store_of entities_settings,
      \<lparr>calls = [(Call ''elastic_search.query.get_entity_data'' []
                   [(''connection'', PyStr ''client''), (''index_name'', PyStr ''entities''),
                    (''doc_type'', PyStr ''data''), (''entity_name'', PyStr ''city''),
                    (''values'', PyNone), (''request_timeout'', PyInt 20)], Inr PyNone)],
       es = ()\<rparr>)"
  by (simp add: get_entity_data_def run_defs fixture_defs)

text \<open>
  C1, as the claim has it: the bulk entity-level delete \<^verbatim>\<open>delete_entity\<close> addresses the
  index obtained by resolving the live-index pointer.  In a deployment where the pointer
  of store \<^verbatim>\<open>entities\<close> resolves to \<^verbatim>\<open>entities_v2\<close>, \<^verbatim>\<open>delete_entity\<close> makes one call
  of the backend, addressed to \<^verbatim>\<open>entities\<close>, and never asks the resolver.
\<close>

theorem delete_entity_unresolved_counterexample:
  "elastic_search (deployment (config_of entities_settings)
                     (stub_backend (Inr (PyStr ''entities_v2'')) PyNone))
     (Call ''elastic_search.connect.get_current_live_index'' [PyStr ''entities''] []) ()
   = (Inr (PyStr ''entities_v2''), ())
   \<and> calls (snd (snd (delete_entity
        (deployment (config_of entities_settings)
           (stub_backend (Inr (PyStr ''entities_v2'')) PyNone))
        (PyStr ''city'') [] (store_of entities_settings) (fresh ()))))
     = [(Call ''elastic_search.populate.delete_entity_by_name'' []
           [(''connection'', PyStr ''client''), (''index_name'', PyStr ''entities''),
            (''doc_type'', PyStr ''data''), (''entity_name'', PyStr ''city''),
            (''logger'', PyStr ''ner_logger''),
            (''ignore'', PyList [PyInt 400, PyInt 404])], Inr PyNone)]"
  using live_fixture delete_entity_fixture by simp

text \<open>
  C1, amended.  Every call of the backend that one of the five queries or
  \<^verbatim>\<open>delete_entity\<close> makes, the reconnection apart, is the call of its backend function
  with the store name of the object as index.  Every call that \<^verbatim>\<open>add_entity_data\<close>,
  \<^verbatim>\<open>delete_entity_data_by_values\<close> or \<^verbatim>\<open>update_entity_data\<close> makes, the reconnection
  apart, is the call of the resolver on the store name or the call of its backend
  function with, as index, the name the resolver returned in the same run (for
  \<^verbatim>\<open>update_entity_data\<close>: or the store name, when the resolver raised in the same run).
\<close>

theorem index_addressed_by_operations:
  "(get_entity_dictionary E n kw d w = (r, d', w') \<longrightarrow>
      (\<forall>x\<in>set (issued w w').
          fst x = connect_call (ds_connection_settings d')
          \<or> (function_of (fst x) = ''elastic_search.query.dictionary_query''
             \<and> index_name_of (fst x) = Some (ds_store_name d'))))
 \<and> (get_similar_dictionary E n txt fz lang kw d w = (r, d', w') \<longrightarrow>
      (\<forall>x\<in>set (issued w w').
          fst x = connect_call (ds_connection_settings d')
          \<or> (function_of (fst x) = ''elastic_search.query.full_text_query''
             \<and> index_name_of (fst x) = Some (ds_store_name d'))))
 \<and> (get_entity_unique_values E n kw d w = (r, d', w') \<longrightarrow>
      (\<forall>x\<in>set (issued w w').
          fst x = connect_call (ds_connection_settings d')
          \<or> (function_of (fst x) = ''elastic_search.query.get_entity_unique_values''
             \<and> index_name_of (fst x) = Some (ds_store_name d'))))
 \<and> (get_entity_supported_languages E n kw d w = (r, d', w') \<longrightarrow>
      (\<forall>x\<in>set (issued w w').
          fst x = connect_call (ds_connection_settings d')
          \<or> (function_of (fst x) = ''elastic_search.query.get_entity_supported_languages''
             \<and> index_name_of (fst x) = Some (ds_store_name d'))))
 \<and> (get_entity_data E n vs kw d w = (r, d', w') \<longrightarrow>
      (\<forall>x\<in>set (issued w w').
          fst x = connect_call (ds_connection_settings d')
          \<or> (function_of (fst x) = ''elastic_search.query.get_entity_data''
             \<and> index_name_of (fst x) = Some (ds_store_name d'))))
 \<and> (delete_entity E n kw d w = (r, d', w') \<longrightarrow>
      (\<forall>x\<in>set (issued w w').
          fst x = connect_call (ds_connection_settings d')
          \<or> (function_of (fst x) = ''elastic_search.populate.delete_entity_by_name''
             \<and> index_name_of (fst x) = Some (ds_store_name d'))))
 \<and> (add_entity_data E n recs kw d w = (r, d', w') \<longrightarrow>
      (\<forall>x\<in>set (issued w w').
          fst x = connect_call (ds_connection_settings d')
          \<or> (fst x = resolver_call (ds_store_name d')
             \<or> function_of (fst x) = ''elastic_search.populate.add_entity_data''
               \<and> (\<exists>live. (resolver_call (ds_store_name d'), Inr live) \<in> set (issued w w')
                    \<and> index_name_of (fst x) = Some live))))
 \<and> (delete_entity_data_by_values E n vs kw d w = (r, d', w') \<longrightarrow>
      (\<forall>x\<in>set (issued w w').
          fst x = connect_call (ds_connection_settings d')
          \<or> (fst x = resolver_call (ds_store_name d')
             \<or> function_of (fst x) = ''elastic_search.populate.delete_entity_data_by_values''
               \<and> (\<exists>live. (resolver_call (ds_store_name d'), Inr live) \<in> set (issued w w')
                    \<and> index_name_of (fst x) = Some live))))
 \<and> (update_entity_data E n dat lang kw d w = (r, d', w') \<longrightarrow>
      (\<forall>x\<in>set (issued w w').
          fst x = connect_call (ds_connection_settings d')
          \<or> (fst x = resolver_call (ds_store_name d')
             \<or> function_of (fst x) = ''elastic_search.populate.entity_data_update''
               \<and> ((\<exists>live. (resolver_call (ds_store_name d'), Inr live) \<in> set (issued w w')
                     \<and> index_name_of (fst x) = Some live)
                  \<or> (\<exists>e. (resolver_call (ds_store_name d'), Inl e) \<in> set (issued w w')
                     \<and> index_name_of (fst x) = Some (ds_store_name d'))))))
 \<and> (DataStore_init E w0 = (Inr d0, w1) \<longrightarrow>
      ds_store_name d0
        = dict_get_default (ds_connection_settings d0) (ELASTICSEARCH_INDEX_NAME E) (PyStr ''_all''))"
  apply (intro conjI impI)
          apply (erule get_entity_dictionary_calls)
          apply (erule get_similar_dictionary_calls)
          apply (erule get_entity_unique_values_calls)
          apply (erule get_entity_supported_languages_calls)
          apply (erule get_entity_data_calls)
          apply (erule delete_entity_calls)
          apply (erule add_entity_data_calls)
          apply (erule delete_entity_data_by_values_calls)
          apply (erule update_entity_data_calls)
  apply (drule DataStore_init_Inr, clarify, drule ds_connect_Inr, simp)
  done

theorem index_addressed_by_operations_witness:
  "issued (fresh ())
     (snd (snd (get_entity_data
        (deployment (config_of entities_settings)
           (stub_backend (Inr (PyStr ''entities_v2'')) PyNone))
        (PyStr ''city'') PyNone [] (store_of entities_settings) (fresh ()))))
     = [(Call ''elastic_search.query.get_entity_data'' []
           [(''connection'', PyStr ''client''), (''index_name'', PyStr ''entities''),
            (''doc_type'', PyStr ''data''), (''entity_name'', PyStr ''city''),
            (''values'', PyNone), (''request_timeout'', PyInt 20)], Inr PyNone)]
   \<and> index_name_of (Call ''elastic_search.query.get_entity_data'' []
           [(''connection'', PyStr ''client''), (''index_name'', PyStr ''entities''),
            (''doc_type'', PyStr ''data''), (''entity_name'', PyStr ''city''),
            (''values'', PyNone), (''request_timeout'', PyInt 20)])
       = Some (ds_store_name (store_of entities_settings))
   \<and> issued (fresh ())
     (snd (snd (add_entity_data
        (deployment (config_of entities_settings)
           (stub_backend (Inr (PyStr ''entities_v2'')) PyNone))
        (PyStr ''city'') (PyList []) [] (store_of entities_settings) (fresh ()))))
     = [(resolver_call (ds_store_name (store_of entities_settings)), Inr (PyStr ''entities_v2'')),
        (Call ''elastic_search.populate.add_entity_data'' []
           [(''connection'', PyStr ''client''), (''index_name'', PyStr ''entities_v2''),
            (''doc_type'', PyStr ''data''), (''entity_name'', PyStr ''city''),
            (''value_variant_records'', PyList [])], Inr PyNone)]
   \<and> index_name_of (Call ''elastic_search.populate.add_entity_data'' []
           [(''connection'', PyStr ''client''), (''index_name'', PyStr ''entities_v2''),
            (''doc_type'', PyStr ''data''), (''entity_name'', PyStr ''city''),
            (''value_variant_records'', PyList [])])
       = Some (PyStr ''entities_v2'')"
proof -
  let ?E = "deployment (config_of entities_settings)
              (stub_backend (Inr (PyStr ''entities_v2'')) PyNone) :: unit env"
  let ?d = "store_of entities_settings"
  note t = index_addressed_by_operations[where E = ?E and d = ?d and w = "fresh ()"
             and n = "PyStr ''city''" and kw = "[]" and r = "Inr PyNone" and d' = ?d]
  from t[where vs = PyNone and w' = "snd (snd (get_entity_data ?E (PyStr ''city'') PyNone []
                                       ?d (fresh ())))"]
    get_entity_data_fixture
  have a: "\<forall>x\<in>set (issued (fresh ())
               (snd (snd (get_entity_data ?E (PyStr ''city'') PyNone [] ?d (fresh ()))))).
             fst x = connect_call (ds_connection_settings ?d)
             \<or> (function_of (fst x) = ''elastic_search.query.get_entity_data''
                \<and> index_name_of (fst x) = Some (ds_store_name ?d))"
    by simp
  from t[where recs = "PyList []" and w' = "snd (snd (add_entity_data ?E (PyStr ''city'')
                                       (PyList []) [] ?d (fresh ())))"]
    add_entity_data_fixture
  have b: "\<forall>x\<in>set (issued (fresh ())
               (snd (snd (add_entity_data ?E (PyStr ''city'') (PyList []) [] ?d (fresh ()))))).
             fst x = connect_call (ds_connection_settings ?d)
             \<or> (fst x = resolver_call (ds_store_name ?d)
                \<or> function_of (fst x) = ''elastic_search.populate.add_entity_data''
                  \<and> (\<exists>live. (resolver_call (ds_store_name ?d), Inr live)
                         \<in> set (issued (fresh ())
                              (snd (snd (add_entity_data ?E (PyStr ''city'') (PyList []) []
                                 ?d (fresh ())))))
                       \<and> index_name_of (fst x) = Some live))"
    by simp
  from a b show ?thesis
    unfolding get_entity_data_fixture add_entity_data_fixture
    by (simp add: issued_def fresh_def store_of_def resolver_call_def connect_call_def
                  function_of_def index_name_of_def)
qed


subsection \<open>Create, delete and exists on the backend of the spec\<close>

lemma guard_run_connected:
  assumes run: "bindE (connect_if_none E) body d w = (Inr r, d1, w1)"
    and engine: "ds_engine d = PyStr (ELASTICSEARCH E)"
  obtains d0 w0 where "ds_client_or_connection d0 \<noteq> PyNone"
    and "ds_engine d0 = PyStr (ELASTICSEARCH E)"
    and "body PyNone d0 w0 = (Inr r, d1, w1)"
proof (cases "ds_client_or_connection d = PyNone")
  case False
  with run have "body PyNone d w = (Inr r, d1, w1)"
    by (simp add: bindE_def connect_if_none_def)
  with False engine that show ?thesis by blast
next
  case True
  obtain r0 d0 w0 where c: "ds_connect E d w = (r0, d0, w0)"
    by (cases "ds_connect E d w") auto
  show ?thesis
  proof (cases r0)
    case (Inl e)
    with run True c show ?thesis by (simp add: bindE_def connect_if_none_def)
  next
    case (Inr a)
    from ds_connect_Inr[OF c[unfolded Inr]]
    have "a = PyNone" "ds_client_or_connection d0 \<noteq> PyNone"
      "ds_engine d0 = PyStr (ELASTICSEARCH E)" by simp_all
    moreover from run True c Inr \<open>a = PyNone\<close> have "body PyNone d0 w0 = (Inr r, d1, w1)"
      by (simp add: bindE_def connect_if_none_def)
    ultimately show ?thesis using that by blast
  qed
qed

lemma es_spec_create_entity_index:
  assumes "elastic_search E = es_spec"
  shows "call_kw E ''elastic_search.create.create_entity_index''
           [(''connection'', c), (''index_name'', i), (''doc_type'', t), (''logger'', l),
            (''ignore'', PyList [PyInt 400, PyInt 404])] kw d w
         = (if kw_clash [(''connection'', c), (''index_name'', i), (''doc_type'', t),
                         (''logger'', l), (''ignore'', PyList [PyInt 400, PyInt 404])] kw
            then (Inl TypeError, d, w)
            else (Inr PyNone, d,
                  \<lparr>calls = calls w @
                     [(Call ''elastic_search.create.create_entity_index'' []
                         ([(''connection'', c), (''index_name'', i), (''doc_type'', t),
                           (''logger'', l), (''ignore'', PyList [PyInt 400, PyInt 404])] @ kw),
                       Inr PyNone)],
                    es = insert i (es w)\<rparr>))"
  using assms
  by (simp add: call_kw_def invoke_def es_spec_def ignored_def dict_get_def insert_absorb)

lemma es_spec_create_crf_index:
  assumes "elastic_search E = es_spec"
  shows "call_kw E ''elastic_search.create.create_crf_index''
           [(''connection'', c), (''index_name'', i), (''doc_type'', t), (''logger'', l),
            (''ignore'', PyList [PyInt 400, PyInt 404])] kw d w
         = (if kw_clash [(''connection'', c), (''index_name'', i), (''doc_type'', t),
                         (''logger'', l), (''ignore'', PyList [PyInt 400, PyInt 404])] kw
            then (Inl TypeError, d, w)
            else (Inr PyNone, d,
                  \<lparr>calls = calls w @
                     [(Call ''elastic_search.create.create_crf_index'' []
                         ([(''connection'', c), (''index_name'', i), (''doc_type'', t),
                           (''logger'', l), (''ignore'', PyList [PyInt 400, PyInt 404])] @ kw),
                       Inr PyNone)],
                    es = insert i (es w)\<rparr>))"
  using assms
  by (simp add: call_kw_def invoke_def es_spec_def ignored_def dict_get_def insert_absorb)

lemma es_spec_delete_index:
  assumes "elastic_search E = es_spec"
  shows "call_kw E ''elastic_search.create.delete_index''
           [(''connection'', c), (''index_name'', i), (''logger'', l),
            (''ignore'', PyList [PyInt 400, PyInt 404])] kw d w
         = (if kw_clash [(''connection'', c), (''index_name'', i), (''logger'', l),
                         (''ignore'', PyList [PyInt 400, PyInt 404])] kw
            then (Inl TypeError, d, w)
            else (Inr PyNone, d,
                  \<lparr>calls = calls w @
                     [(Call ''elastic_search.create.delete_index'' []
                         ([(''connection'', c), (''index_name'', i), (''logger'', l),
                           (''ignore'', PyList [PyInt 400, PyInt 404])] @ kw),
                       Inr PyNone)],
                    es = es w - {i}\<rparr>))"
  using assms
  by (simp add: call_kw_def invoke_def es_spec_def ignored_def dict_get_def)

lemma exists_connected:
  assumes "elastic_search E = es_spec" and "ds_client_or_connection d \<noteq> PyNone"
    and "ds_engine d = PyStr (ELASTICSEARCH E)"
  shows "fst (exists E d w) = Inr (PyBool (ds_store_name d \<in> es w))"
  using assms
  by (simp add: exists_def guard_connected invoke_def es_spec_def dict_get_def)

lemma delete_connected:
  assumes "elastic_search E = es_spec" and "ds_client_or_connection d \<noteq> PyNone"
    and "ds_engine d = PyStr (ELASTICSEARCH E)"
    and "delete E kw d w = (Inr r, d1, w1)"
  shows "d1 = d \<and> r = PyNone \<and> ds_store_name d \<notin> es w1
         \<and> fst (delete E kw d w2) = Inr PyNone"
  using assms
  by (auto simp: delete_def connect_if_none_def bindE_def returnE_def es_spec_delete_index
           split: if_splits)

lemma create_connected:
  assumes "elastic_search E = es_spec" and "ds_client_or_connection d \<noteq> PyNone"
    and "ds_engine d = PyStr (ELASTICSEARCH E)"
    and "create E kw d w = (Inr r, d1, w1)"
  shows "d1 = d \<and> r = PyNone \<and> ds_store_name d \<in> es w1
         \<and> fst (create E kw d w2) = Inr PyNone"
  using assms
  by (auto simp: create_def connect_if_none_def bindE_def returnE_def Let_def
                 check_doc_type_for_elasticsearch_def check_doc_type_for_crf_data_elasticsearch_def
                 settings_item_def es_spec_create_entity_index es_spec_create_crf_index
           split: if_splits option.splits)

lemma create_fixture:
  "create (deployment (config_of entities_settings) es_spec) [] (store_of entities_settings)
     (fresh {})
   = (Inr PyNone, store_of entities_settings,
      \<lparr>calls = [(Call ''elastic_search.create.create_entity_index'' []
                   [(''connection'', PyStr ''client''), (''index_name'', PyStr ''entities''),
                    (''doc_type'', PyStr ''data''), (''logger'', PyStr ''ner_logger''),
                    (''ignore'', PyList [PyInt 400, PyInt 404])], Inr PyNone)],
       es = {PyStr ''entities''}\<rparr>)"
  by (simp add: create_def run_defs deployment_def config_of_def entities_settings_def
                store_of_def fresh_def es_spec_def ignored_def Let_def)

lemma delete_fixture:
  "delete (deployment (config_of entities_settings) es_spec) [] (store_of entities_settings)
     \<lparr>calls = [(Call ''elastic_search.create.create_entity_index'' []
                   [(''connection'', PyStr ''client''), (''index_name'', PyStr ''entities''),
                    (''doc_type'', PyStr ''data''), (''logger'', PyStr ''ner_logger''),
                    (''ignore'', PyList [PyInt 400, PyInt 404])], Inr PyNone)],
       es = {PyStr ''entities''}\<rparr>
   = (Inr PyNone, store_of entities_settings,
      \<lparr>calls = [(Call ''elastic_search.create.create_entity_index'' []
                   [(''connection'', PyStr ''client''), (''index_name'', PyStr ''entities''),
                    (''doc_type'', PyStr ''data''), (''logger'', PyStr ''ner_logger''),
                    (''ignore'', PyList [PyInt 400, PyInt 404])], Inr PyNone),
                (Call ''elastic_search.create.delete_index'' []
                   [(''connection'', PyStr ''client''), (''index_name'', PyStr ''entities''),
                    (''logger'', PyStr ''ner_logger''),
                    (''ignore'', PyList [PyInt 400, PyInt 404])], Inr PyNone)],
       es = {}\<rparr>)"
  by (simp add: delete_def run_defs deployment_def config_of_def entities_settings_def
                store_of_def es_spec_def ignored_def Let_def)

text \<open>
  C7, on the backend the spec describes (a set of indices; \<open>es_spec\<close>) and an object of
  the search engine.  After a \<^verbatim>\<open>create()\<close> that has completed, \<^verbatim>\<open>exists()\<close> returns
  true and a second \<^verbatim>\<open>create()\<close> with the same options returns too (the backend answers
  "already exists", which \<^verbatim>\<open>ignore=[400, 404]\<close> turns into success), after which
  \<^verbatim>\<open>exists()\<close> is still true.  After a \<^verbatim>\<open>delete()\<close> that has completed, \<^verbatim>\<open>exists()\<close>
  returns false and a second \<^verbatim>\<open>delete()\<close> returns too (the "not found" answer is
  success).
\<close>

theorem create_delete_idempotent:
  assumes "elastic_search E = es_spec" and "ds_engine d = PyStr (ELASTICSEARCH E)"
  shows "(create E kw d w = (Inr r, d1, w1) \<longrightarrow>
            fst (exists E d1 w1) = Inr (PyBool True)
          \<and> fst (create E kw d1 w1) = Inr PyNone
          \<and> fst (exists E (fst (snd (create E kw d1 w1))) (snd (snd (create E kw d1 w1))))
              = Inr (PyBool True))
       \<and> (delete E kw d w = (Inr r, d1, w1) \<longrightarrow>
            fst (exists E d1 w1) = Inr (PyBool False)
          \<and> fst (delete E kw d1 w1) = Inr PyNone)"
proof (intro conjI impI)
  assume run: "create E kw d w = (Inr r, d1, w1)"
  from run[unfolded create_def] assms(2) obtain d0 w0 where
    h: "ds_client_or_connection d0 \<noteq> PyNone" and e: "ds_engine d0 = PyStr (ELASTICSEARCH E)"
    and c: "create E kw d0 w0 = (Inr r, d1, w1)"
    by (rule guard_run_connected) (simp add: create_def guard_connected)
  from create_connected[OF assms(1) h e c] have d1: "d1 = d0" and s: "ds_store_name d0 \<in> es w1"
    and again: "fst (create E kw d0 w2) = Inr PyNone" for w2
    by simp_all
  from exists_connected[OF assms(1) h e] s d1
  show "fst (exists E d1 w1) = Inr (PyBool True)" by simp
  from again d1 show "fst (create E kw d1 w1) = Inr PyNone" by simp
  obtain r2 d2 w2 where c2: "create E kw d0 w1 = (r2, d2, w2)"
    by (cases "create E kw d0 w1") auto
  with again[of w1] have "create E kw d0 w1 = (Inr PyNone, d2, w2)" by simp
  from create_connected[OF assms(1) h e this] have "d2 = d0" "ds_store_name d0 \<in> es w2"
    by simp_all
  with exists_connected[OF assms(1) h e, of w2] c2 d1
  show "fst (exists E (fst (snd (create E kw d1 w1))) (snd (snd (create E kw d1 w1))))
          = Inr (PyBool True)"
    by simp
next
  assume run: "delete E kw d w = (Inr r, d1, w1)"
  from run[unfolded delete_def] assms(2) obtain d0 w0 where
    h: "ds_client_or_connection d0 \<noteq> PyNone" and e: "ds_engine d0 = PyStr (ELASTICSEARCH E)"
    and c: "delete E kw d0 w0 = (Inr r, d1, w1)"
    by (rule guard_run_connected) (simp add: delete_def guard_connected)
  from delete_connected[OF assms(1) h e c] have d1: "d1 = d0" and s: "ds_store_name d0 \<notin> es w1"
    and again: "fst (delete E kw d0 w2) = Inr PyNone" for w2
    by simp_all
  from exists_connected[OF assms(1) h e] s d1
  show "fst (exists E d1 w1) = Inr (PyBool False)" by simp
  from again d1 show "fst (delete E kw d1 w1) = Inr PyNone" by simp
qed

theorem create_delete_idempotent_witness:
  "elastic_search (deployment (config_of entities_settings) es_spec) = es_spec
   \<and> ds_engine (store_of entities_settings)
       = PyStr (ELASTICSEARCH (deployment (config_of entities_settings) es_spec))
   \<and> create (deployment (config_of entities_settings) es_spec) [] (store_of entities_settings)
        (fresh {})
       = (Inr PyNone, store_of entities_settings,
          \<lparr>calls = [(Call ''elastic_search.create.create_entity_index'' []
                       [(''connection'', PyStr ''client''), (''index_name'', PyStr ''entities''),
                        (''doc_type'', PyStr ''data''), (''logger'', PyStr ''ner_logger''),
                        (''ignore'', PyList [PyInt 400, PyInt 404])], Inr PyNone)],
           es = {PyStr ''entities''}\<rparr>)
   \<and> fst (exists (deployment (config_of entities_settings) es_spec) (store_of entities_settings)
        \<lparr>calls = [(Call ''elastic_search.create.create_entity_index'' []
                       [(''connection'', PyStr ''client''), (''index_name'', PyStr ''entities''),
                        (''doc_type'', PyStr ''data''), (''logger'', PyStr ''ner_logger''),
                        (''ignore'', PyList [PyInt 400, PyInt 404])], Inr PyNone)],
           es = {PyStr ''entities''}\<rparr>) = Inr (PyBool True)
   \<and> fst (create (deployment (config_of entities_settings) es_spec) [] (store_of entities_settings)
        \<lparr>calls = [(Call ''elastic_search.create.create_entity_index'' []
                       [(''connection'', PyStr ''client''), (''index_name'', PyStr ''entities''),
                        (''doc_type'', PyStr ''data''), (''logger'', PyStr ''ner_logger''),
                        (''ignore'', PyList [PyInt 400, PyInt 404])], Inr PyNone)],
           es = {PyStr ''entities''}\<rparr>) = Inr PyNone
   \<and> fst (exists (deployment (config_of entities_settings) es_spec) (store_of entities_settings)
        \<lparr>calls = [(Call ''elastic_search.create.create_entity_index'' []
                   [(''connection'', PyStr ''client''), (''index_name'', PyStr ''entities''),
                    (''doc_type'', PyStr ''data''), (''logger'', PyStr ''ner_logger''),
                    (''ignore'', PyList [PyInt 400, PyInt 404])], Inr PyNone),
                (Call ''elastic_search.create.delete_index'' []
                   [(''connection'', PyStr ''client''), (''index_name'', PyStr ''entities''),
                    (''logger'', PyStr ''ner_logger''),
                    (''ignore'', PyList [PyInt 400, PyInt 404])], Inr PyNone)],
         es = {}\<rparr>) = Inr (PyBool False)
   \<and> fst (delete (deployment (config_of entities_settings) es_spec) [] (store_of entities_settings)
        \<lparr>calls = [(Call ''elastic_search.create.create_entity_index'' []
                   [(''connection'', PyStr ''client''), (''index_name'', PyStr ''entities''),
                    (''doc_type'', PyStr ''data''), (''logger'', PyStr ''ner_logger''),
                    (''ignore'', PyList [PyInt 400, PyInt 404])], Inr PyNone),
                (Call ''elastic_search.create.delete_index'' []
                   [(''connection'', PyStr ''client''), (''index_name'', PyStr ''entities''),
                    (''logger'', PyStr ''ner_logger''),
                    (''ignore'', PyList [PyInt 400, PyInt 404])], Inr PyNone)],
         es = {}\<rparr>) = Inr PyNone"
proof -
  let ?E = "deployment (config_of entities_settings) es_spec"
  let ?d = "store_of entities_settings"
  have b: "elastic_search ?E = es_spec" by (simp add: deployment_def)
  have e: "ds_engine ?d = PyStr (ELASTICSEARCH ?E)" by (simp add: deployment_def store_of_def)
  from create_delete_idempotent[OF b e, of "[]" "fresh {}" PyNone ?d] create_fixture
  have 1: "fst (exists ?E ?d
        \<lparr>calls = [(Call ''elastic_search.create.create_entity_index'' []
                       [(''connection'', PyStr ''client''), (''index_name'', PyStr ''entities''),
                        (''doc_type'', PyStr ''data''), (''logger'', PyStr ''ner_logger''),
                        (''ignore'', PyList [PyInt 400, PyInt 404])], Inr PyNone)],
           es = {PyStr ''entities''}\<rparr>) = Inr (PyBool True)
     \<and> fst (create ?E [] ?d
        \<lparr>calls = [(Call ''elastic_search.create.create_entity_index'' []
                       [(''connection'', PyStr ''client''), (''index_name'', PyStr ''entities''),
                        (''doc_type'', PyStr ''data''), (''logger'', PyStr ''ner_logger''),
                        (''ignore'', PyList [PyInt 400, PyInt 404])], Inr PyNone)],
           es = {PyStr ''entities''}\<rparr>) = Inr PyNone"
    by blast
  from create_delete_idempotent[OF b e, of "[]" _ PyNone ?d] delete_fixture
  have 2: "fst (exists ?E ?d
        \<lparr>calls = [(Call ''elastic_search.create.create_entity_index'' []
                   [(''connection'', PyStr ''client''), (''index_name'', PyStr ''entities''),
                    (''doc_type'', PyStr ''data''), (''logger'', PyStr ''ner_logger''),
                    (''ignore'', PyList [PyInt 400, PyInt 404])], Inr PyNone),
                (Call ''elastic_search.create.delete_index'' []
                   [(''connection'', PyStr ''client''), (''index_name'', PyStr ''entities''),
                    (''logger'', PyStr ''ner_logger''),
                    (''ignore'', PyList [PyInt 400, PyInt 404])], Inr PyNone)],
         es = {}\<rparr>) = Inr (PyBool False)
     \<and> fst (delete ?E [] ?d
        \<lparr>calls = [(Call ''elastic_search.create.create_entity_index'' []
                   [(''connection'', PyStr ''client''), (''index_name'', PyStr ''entities''),
                    (''doc_type'', PyStr ''data''), (''logger'', PyStr ''ner_logger''),
                    (''ignore'', PyList [PyInt 400, PyInt 404])], Inr PyNone),
                (Call ''elastic_search.create.delete_index'' []
                   [(''connection'', PyStr ''client''), (''index_name'', PyStr ''entities''),
                    (''logger'', PyStr ''ner_logger''),
                    (''ignore'', PyList [PyInt 400, PyInt 404])], Inr PyNone)],
         es = {}\<rparr>) = Inr PyNone"
    by blast
  from b e create_fixture 1 2 show ?thesis by blast
qed

end
